theory Spec2Isabelle
  imports Complex_Main
begin

section \<open>JavaScript values used by the configurator\<close>

text \<open>
  A JavaScript number is a finite value, one of the two infinities, or NaN. Finite values are
  idealised as reals: rounding of IEEE doubles is not modelled.
\<close>

datatype jsnum = Fin real | PosInf | NegInf | NaN

text \<open>\<^verbatim>\<open>String.prototype.toLowerCase\<close>, on the ASCII letters.\<close>

definition to_lower :: "char \<Rightarrow> char" where
  "to_lower c =
     (case map_of (zip ''ABCDEFGHIJKLMNOPQRSTUVWXYZ'' ''abcdefghijklmnopqrstuvwxyz'') c of
        Some d \<Rightarrow> d
      | None \<Rightarrow> c)"

definition toLowerCase :: "string \<Rightarrow> string" where
  "toLowerCase s = map to_lower s"

section \<open>Pricing system\<close>

text \<open>\<^verbatim>\<open>applyMultiplier\<close>: \<^verbatim>\<open>Math.round(price * PRICE_MULTIPLIER * 100) / 100\<close>;
  \<^verbatim>\<open>Math.round\<close> rounds halves up.\<close>

definition PRICE_MULTIPLIER :: real where
  "PRICE_MULTIPLIER = 2.21"

definition math_round :: "real \<Rightarrow> int" where
  "math_round x = \<lfloor>x + 1 / 2\<rfloor>"

definition applyMultiplier :: "real \<Rightarrow> real" where
  "applyMultiplier price = of_int (math_round (price * PRICE_MULTIPLIER * 100)) / 100"

text \<open>
  A price table is an object literal keyed by engineering sizes in millimetres; it is kept as
  the association list of its entries in source order. \<^verbatim>\<open>Object.keys\<close> enumerates
  integer keys in ascending order, whatever the order they were written in.
\<close>

type_synonym 'v js_object = "(nat \<times> 'v) list"

definition object_keys :: "'v js_object \<Rightarrow> nat list" where
  "object_keys obj = sort (map fst obj)"

definition Castor_polycarbonateRoof :: "nat js_object js_object" where
  "Castor_polycarbonateRoof =
   [(2000, [(3060, 780), (4060, 920), (5060, 1025), (6060, 1150), (7060, 1300), (8060, 1500), (9060, 1800), (10060, 1950)]),
    (2500, [(3060, 900), (4060, 1050), (5060, 1250), (6060, 1425), (7060, 1575), (8060, 1700), (9060, 2100), (10060, 2250)]),
    (3000, [(3060, 1050), (4060, 1225), (5060, 1400), (6060, 1525), (7060, 1700), (8060, 1825), (9060, 2350), (10060, 2600)]),
    (3500, [(3060, 1225), (4060, 1375), (5060, 1500), (6060, 1700), (7060, 1850), (8060, 2000), (9060, 2450), (10060, 2800)]),
    (4000, [(3060, 1350), (4060, 1475), (5060, 1650), (6060, 1875), (7060, 2000), (8060, 2150), (9060, 2575), (10060, 2950)]),
    (5000, [(3060, 1500), (4060, 1850), (5060, 2150), (6060, 2450), (7060, 2850), (8060, 3125), (9060, 3325), (10060, 3650)]),
    (6000, [(3060, 1850), (4060, 2250), (5060, 2700), (6060, 3100), (7060, 3550), (8060, 3950), (9060, 4250), (10060, 4500)])]"

definition Castor_glassRoof :: "nat js_object js_object" where
  "Castor_glassRoof =
   [(2000, [(3060, 1275), (4060, 1500), (5060, 1700), (6060, 1900), (7060, 2150), (8060, 2350), (9060, 2650), (10060, 2900)]),
    (2500, [(3060, 1475), (4060, 1675), (5060, 1900), (6060, 2100), (7060, 2375), (8060, 2600), (9060, 3000), (10060, 3250)]),
    (3000, [(3060, 1650), (4060, 1875), (5060, 2100), (6060, 2300), (7060, 2600), (8060, 2870), (9060, 3300), (10060, 3550)]),
    (3500, [(3060, 1975), (4060, 2300), (5060, 2575), (6060, 2900), (7060, 3100), (8060, 3450), (9060, 4000), (10060, 4350)]),
    (4000, [(3060, 2200), (4060, 2580), (5060, 2850), (6060, 3200), (7060, 3500), (8060, 3800), (9060, 4500), (10060, 4900)])]"

definition Titan_polycarbonateRoof :: "nat js_object js_object" where
  "Titan_polycarbonateRoof =
   [(2000, [(3060, 860), (4060, 955), (5060, 1125), (6060, 1295), (7060, 1525), (8060, 1635), (9060, 1945), (10060, 2030)]),
    (2500, [(3060, 935), (4060, 1065), (5060, 1255), (6060, 1450), (7060, 1610), (8060, 1745), (9060, 2180), (10060, 2295)]),
    (3000, [(3060, 1015), (4060, 1165), (5060, 1455), (6060, 1575), (7060, 1765), (8060, 1895), (9060, 2385), (10060, 2670)]),
    (3500, [(3060, 1205), (4060, 1385), (5060, 1560), (6060, 1810), (7060, 1965), (8060, 2090), (9060, 2540), (10060, 2880)]),
    (4000, [(3060, 1365), (4060, 1570), (5060, 1785), (6060, 1965), (7060, 2090), (8060, 2210), (9060, 2695), (10060, 3150)]),
    (4500, [(3060, 1620), (4060, 1775), (5060, 1985), (6060, 2300), (7060, 2590), (8060, 2890), (9060, 3095), (10060, 3620)])]"

definition Titan_glassRoof_clear :: "nat js_object js_object" where
  "Titan_glassRoof_clear =
   [(2000, [(3060, 1260), (4060, 1505), (5060, 1755), (6060, 1995), (7060, 2245), (8060, 2460), (9060, 2965), (10060, 3285)]),
    (2500, [(3060, 1400), (4060, 1655), (5060, 1895), (6060, 2125), (7060, 2365), (8060, 2605), (9060, 3140), (10060, 3410)]),
    (3000, [(3060, 1630), (4060, 1840), (5060, 2190), (6060, 2350), (7060, 2895), (8060, 3050), (9060, 3400), (10060, 3800)]),
    (3500, [(3060, 2050), (4060, 2285), (5060, 2660), (6060, 3050), (7060, 3690), (8060, 3900), (9060, 4150), (10060, 4600)]),
    (4000, [(3060, 2440), (4060, 2675), (5060, 3050), (6060, 3450), (7060, 4060), (8060, 4700), (9060, 5100), (10060, 5280)])]"

definition Titan_ledLighting_single :: nat where
  "Titan_ledLighting_single = 12"

definition Titan_ledLighting_sets :: "nat js_object" where
  "Titan_ledLighting_sets = [(6, 160), (8, 180), (10, 200), (12, 220), (14, 340), (16, 360), (18, 380)]"

definition zijwandPolycarbonate :: "nat js_object" where
  "zijwandPolycarbonate =
     [(2000, 260), (2500, 315), (3000, 335), (3500, 370), (4000, 395), (4500, 465), (5000, 510)]"

text \<open>
  The comparison of the two reducers, \<^verbatim>\<open>Math.abs(curr - target) < Math.abs(prev - target)\<close>.
  The keys are finite. With an infinite target both distances are \<^verbatim>\<open>Infinity\<close>, with NaN
  both are NaN; the comparison is false either way.
\<close>

fun closer :: "jsnum \<Rightarrow> nat \<Rightarrow> nat \<Rightarrow> bool" where
  "closer (Fin t) cur prev = (\<bar>real cur - t\<bar> < \<bar>real prev - t\<bar>)"
| "closer _ cur prev = False"

text \<open>\<^verbatim>\<open>keys.reduce((prev, curr) => closer ? curr : prev)\<close> with no initial value: the
  first element starts the fold, and an empty array throws a TypeError (here \<open>None\<close>).\<close>

fun reduce_closest :: "jsnum \<Rightarrow> nat list \<Rightarrow> nat option" where
  "reduce_closest target [] = None"
| "reduce_closest target (k # ks) =
     Some (foldl (\<lambda>prev cur. if closer target cur prev then cur else prev) k ks)"

datatype js_error = TypeError | UndefinedPrice

text \<open>\<^verbatim>\<open>PriceCalculator.findClosestDimension\<close>. Reading \<^verbatim>\<open>dimensions[closestDepth]\<close>
  of a missing key gives \<^verbatim>\<open>undefined\<close>, whose \<^verbatim>\<open>Object.keys\<close> throws.\<close>

definition findClosestDimension ::
  "nat js_object js_object \<Rightarrow> jsnum \<Rightarrow> jsnum \<Rightarrow> js_error + (nat \<times> nat)" where
  "findClosestDimension dimensions targetDepth targetWidth =
     (let depthKeys = object_keys dimensions in
      case reduce_closest targetDepth depthKeys of
        None \<Rightarrow> Inl TypeError
      | Some closestDepth \<Rightarrow>
          (case map_of dimensions closestDepth of
             None \<Rightarrow> Inl TypeError
           | Some row \<Rightarrow>
               (let widthKeys = object_keys row in
                case reduce_closest targetWidth widthKeys of
                  None \<Rightarrow> Inl TypeError
                | Some closestWidth \<Rightarrow> Inr (closestDepth, closestWidth))))"

text \<open>A price component is either a wholesale/retail pair or the \<^verbatim>\<open>{ error }\<close> marker.
  The fields echoing the input (\<^verbatim>\<open>dimensions\<close>, \<^verbatim>\<open>lightCount\<close>) are left out,
  the snapped \<^verbatim>\<open>depth\<close> of a side wall is kept.\<close>

datatype component =
    Price (wholesale: real) (retail: real)
  | SidePrice (wholesale: real) (retail: real) (snapped: nat)
  | Error string

fun is_error :: "component \<Rightarrow> bool" where
  "is_error (Error e) = True"
| "is_error _ = False"

record roof_config =
  rc_model :: string
  rc_roofType :: string
  rc_depth :: jsnum
  rc_width :: jsnum

text \<open>\<^verbatim>\<open>PriceCalculator.calculateVerandaRoof\<close>. A cell that is missing from the table
  would leave \<^verbatim>\<open>basePrice\<close> undefined; that outcome is \<open>Inl UndefinedPrice\<close>.\<close>

definition roof_pricing :: "string \<Rightarrow> string \<Rightarrow> nat js_object js_object" where
  "roof_pricing m rt =
     (if toLowerCase m = ''castor''
      then (if rt = ''polycarbonate'' then Castor_polycarbonateRoof else Castor_glassRoof)
      else (if rt = ''polycarbonate'' then Titan_polycarbonateRoof else Titan_glassRoof_clear))"

definition calculateVerandaRoof :: "roof_config \<Rightarrow> js_error + component" where
  "calculateVerandaRoof config =
     (let pricing = roof_pricing (rc_model config) (rc_roofType config) in
      case findClosestDimension pricing (rc_depth config) (rc_width config) of
        Inl e \<Rightarrow> Inl e
      | Inr (d, w) \<Rightarrow>
          (case map_of pricing d of
             None \<Rightarrow> Inl TypeError
           | Some row \<Rightarrow>
               (case map_of row w of
                  None \<Rightarrow> Inl UndefinedPrice
                | Some basePrice \<Rightarrow> Inr (Price (real basePrice) (applyMultiplier (real basePrice))))))"

text \<open>Property access \<^verbatim>\<open>sets[lightCount]\<close> with a number: the key is the number's decimal
  string, so only a number equal to one of the integer keys finds an entry.\<close>

fun lookup_number :: "nat js_object \<Rightarrow> jsnum \<Rightarrow> nat option" where
  "lookup_number obj (Fin x) =
     (if 0 \<le> x \<and> x = of_int \<lfloor>x\<rfloor> then map_of obj (nat \<lfloor>x\<rfloor>) else None)"
| "lookup_number obj _ = None"

text \<open>A table value is truthy when it is present and not zero.\<close>

fun truthy :: "nat option \<Rightarrow> bool" where
  "truthy None = False"
| "truthy (Some v) = (v \<noteq> 0)"

text \<open>\<^verbatim>\<open>PriceCalculator.calculateLEDLighting\<close>.\<close>

definition calculateLEDLighting :: "jsnum \<Rightarrow> component" where
  "calculateLEDLighting lightCount =
     (if lightCount = Fin 1 then
        Price (real Titan_ledLighting_single) (applyMultiplier (real Titan_ledLighting_single))
      else case lookup_number Titan_ledLighting_sets lightCount of
        Some basePrice \<Rightarrow>
          (if basePrice \<noteq> 0 then Price (real basePrice) (applyMultiplier (real basePrice))
           else Error ''Invalid light count'')
      | None \<Rightarrow> Error ''Invalid light count'')"

text \<open>\<^verbatim>\<open>PriceCalculator.calculateSideWall\<close>. The keys are not sorted here; they are
  integer keys, which \<^verbatim>\<open>Object.keys\<close> lists in ascending order.\<close>

definition calculateSideWall :: "jsnum \<Rightarrow> js_error + component" where
  "calculateSideWall d =
     (let availableDepths = object_keys zijwandPolycarbonate in
      case reduce_closest d availableDepths of
        None \<Rightarrow> Inl TypeError
      | Some closestDepth \<Rightarrow>
          (let basePrice = map_of zijwandPolycarbonate closestDepth in
           if \<not> truthy basePrice then Inr (Error ''Invalid depth'')
           else case basePrice of
             Some p \<Rightarrow> Inr (SidePrice (real p) (applyMultiplier (real p)) closestDepth)
           | None \<Rightarrow> Inr (Error ''Invalid depth'')))"

record veranda_config =
  vc_model :: string
  vc_depth :: jsnum
  vc_width :: jsnum
  vc_roofType :: string
  vc_enclosures_left :: bool
  vc_enclosures_right :: bool
  vc_lighting :: jsnum

record results =
  roof :: component
  enclosures_left :: "component option"
  enclosures_right :: "component option"
  lighting :: "component option"
  total_wholesale :: real
  total_retail :: real

text \<open>\<^verbatim>\<open>lighting > 0\<close> on a JavaScript number.\<close>

fun js_positive :: "jsnum \<Rightarrow> bool" where
  "js_positive (Fin x) = (0 < x)"
| "js_positive PosInf = True"
| "js_positive _ = False"

text \<open>The accumulation \<^verbatim>\<open>if (!c.error) { total.wholesale += c.wholesale; ... }\<close> for one
  optional component; the pair is (wholesale, retail).\<close>

fun add_component :: "component option \<Rightarrow> real \<times> real \<Rightarrow> real \<times> real" where
  "add_component None tot = tot"
| "add_component (Some (Error e)) tot = tot"
| "add_component (Some c) (w, r) = (w + wholesale c, r + retail c)"

text \<open>\<^verbatim>\<open>PriceCalculator.calculateCompleteVeranda\<close>. A throw inside a component lookup
  aborts the whole call.\<close>

definition calculateCompleteVeranda :: "veranda_config \<Rightarrow> js_error + results" where
  "calculateCompleteVeranda config =
     (case calculateVerandaRoof
             \<lparr>rc_model = vc_model config, rc_roofType = vc_roofType config,
              rc_depth = vc_depth config, rc_width = vc_width config\<rparr> of
        Inl e \<Rightarrow> Inl e
      | Inr r \<Rightarrow>
          (case (if vc_enclosures_left config
                 then map_sum id Some (calculateSideWall (vc_depth config)) else Inr None) of
             Inl e \<Rightarrow> Inl e
           | Inr l \<Rightarrow>
               (case (if vc_enclosures_right config
                      then map_sum id Some (calculateSideWall (vc_depth config)) else Inr None) of
                  Inl e \<Rightarrow> Inl e
                | Inr rt \<Rightarrow>
                    (let li = (if js_positive (vc_lighting config)
                               then Some (calculateLEDLighting (vc_lighting config)) else None);
                         tot = add_component li
                                 (add_component rt
                                   (add_component l (wholesale r, retail r)))
                     in Inr \<lparr>roof = r, enclosures_left = l, enclosures_right = rt,
                              lighting = li, total_wholesale = fst tot,
                              total_retail = snd tot\<rparr>))))"

text \<open>The contribution of an optional component to a total as the specification words it:
  a component that is absent or is an error marker contributes nothing.\<close>

fun counted_wholesale :: "component option \<Rightarrow> real" where
  "counted_wholesale None = 0"
| "counted_wholesale (Some (Error e)) = 0"
| "counted_wholesale (Some c) = wholesale c"

fun counted_retail :: "component option \<Rightarrow> real" where
  "counted_retail None = 0"
| "counted_retail (Some (Error e)) = 0"
| "counted_retail (Some c) = retail c"

section \<open>Camera controller\<close>






subsection \<open>Wheel and pinch\<close>




subsection \<open>Drag\<close>







subsection \<open>Quick jump\<close>




subsection \<open>Runs\<close>









section \<open>Strings\<close>

text \<open>\<^verbatim>\<open>s.endsWith(suffix)\<close>.\<close>

definition endsWith :: "string \<Rightarrow> string \<Rightarrow> bool" where
  "endsWith s suffix = (take (length suffix) (rev s) = rev suffix)"

text \<open>\<^verbatim>\<open>s.replace(pattern, '')\<close> with a string pattern: the first occurrence is removed.\<close>

fun remove_first :: "string \<Rightarrow> string \<Rightarrow> string" where
  "remove_first pat [] = []"
| "remove_first pat (c # cs) =
     (if take (length pat) (c # cs) = pat then drop (length pat) (c # cs)
      else c # remove_first pat cs)"

text \<open>\<^verbatim>\<open>s.slice(0, -3)\<close>.\<close>

definition slice_off3 :: "string \<Rightarrow> string" where
  "slice_off3 s = take (length s - 3) s"

text \<open>\<^verbatim>\<open>s.includes(sub)\<close>.\<close>

fun js_includes :: "string \<Rightarrow> string \<Rightarrow> bool" where
  "js_includes [] sub = (sub = [])"
| "js_includes (c # cs) sub = (take (length sub) (c # cs) = sub \<or> js_includes cs sub)"

text \<open>\<^verbatim>\<open>list.some(x => s === x.toLowerCase())\<close>.\<close>

definition some_lower :: "string list \<Rightarrow> string \<Rightarrow> bool" where
  "some_lower xs s = (s \<in> set (map toLowerCase xs))"

text \<open>\<^verbatim>\<open>a || b\<close> on a string that may be undefined: undefined and the empty string are
  falsy.\<close>

fun or_else :: "string option \<Rightarrow> string \<Rightarrow> string" where
  "or_else None b = b"
| "or_else (Some a) b = (if a = [] then b else a)"

section \<open>Configuration\<close>

text \<open>
  One entry of \<^verbatim>\<open>sideEnclosureTypes\<close> is an object \<^verbatim>\<open>{ material, glassType }\<close>, either
  field possibly missing, or, after \<^verbatim>\<open>handleApplyAIConfig\<close>, a bare string; reading a
  field of a string gives undefined.
\<close>

datatype side_entry = EntryObj "string option" "string option" | EntryStr string

fun entry_material :: "side_entry \<Rightarrow> string option" where
  "entry_material (EntryObj m g) = m"
| "entry_material (EntryStr s) = None"

fun entry_glassType :: "side_entry \<Rightarrow> string option" where
  "entry_glassType (EntryObj m g) = g"
| "entry_glassType (EntryStr s) = None"

record side_types =
  front_side :: side_entry
  left_side :: side_entry
  right_side :: side_entry

text \<open>The properties of \<^verbatim>\<open>VerandaModel\<close> that its effect reads (\<^verbatim>\<open>enclosureType\<close> and
  \<^verbatim>\<open>selectedSide\<close> are passed and never read). Numbers are finite.\<close>

record configuration =
  roofPitchActive :: bool
  roofPitchAngle :: real
  roofAwningPosition :: string
  metalMaterial :: string
  enclosureEnabled :: bool
  lightsOn :: bool
  lightShape :: string
  timeOfDay :: string
  lightColor :: string
  glassType :: string
  glassStyle :: string
  width :: real
  depth :: real
  height :: real
  sideEnclosureTypes :: side_types
  verandaType :: string
  tintedGlassEnabled :: bool
  glassColor :: string

section \<open>Host price breakdown\<close>

text \<open>\<^verbatim>\<open>a !== 'none'\<close> for an entry: an object is never strictly equal to a string.\<close>

fun not_none :: "side_entry \<Rightarrow> bool" where
  "not_none (EntryObj m g) = True"
| "not_none (EntryStr s) = (s \<noteq> ''none'')"

text \<open>The \<^verbatim>\<open>pricing\<close> memo of \<^verbatim>\<open>VerandaConfiguratorFinal\<close>.\<close>

definition pricing :: "configuration \<Rightarrow> js_error + results" where
  "pricing st =
     calculateCompleteVeranda
       \<lparr>vc_model = ''castor'',
        vc_depth = Fin (depth st * 1000),
        vc_width = Fin (width st * 1000),
        vc_roofType = ''polycarbonate'',
        vc_enclosures_left = (enclosureEnabled st \<and> not_none (left_side (sideEnclosureTypes st))),
        vc_enclosures_right = (enclosureEnabled st \<and> not_none (right_side (sideEnclosureTypes st))),
        vc_lighting = Fin (if lightsOn st then 10 else 0)\<rparr>"

section \<open>Scene nodes\<close>

text \<open>
  A material is one authored in the asset, known by its name, or one of the three kinds the
  effect creates. The created ones carry the parameters that vary; they have the empty name.
\<close>

datatype material =
    Authored string
  | StandardMaterial string real real
  | GlassMaterial string real real
  | LightMaterial string string real real

fun material_name :: "material \<Rightarrow> string" where
  "material_name (Authored n) = n"
| "material_name _ = []"

text \<open>A node of the scene graph with the state the effect reads or writes;
  \<^verbatim>\<open>userData.originalY\<close> and \<^verbatim>\<open>originalZ\<close> start undefined.\<close>

record node =
  name :: string
  isMesh :: bool
  visible :: bool
  material :: "material option"
  scale_x :: real
  scale_y :: real
  scale_z :: real
  rotation_x :: real
  position_y :: real
  position_z :: real
  originalY :: "real option"
  originalZ :: "real option"
  castShadow :: bool
  receiveShadow :: bool

datatype 'a object3d = Object3D 'a "'a object3d list"

text \<open>\<^verbatim>\<open>scene.traverse(f)\<close> where \<open>f\<close> only touches the node it is given.\<close>

definition traverse :: "(node \<Rightarrow> node) \<Rightarrow> node object3d \<Rightarrow> node object3d" where
  "traverse f scene = map_object3d f scene"

section \<open>Scene resolution: the effect of \<^verbatim>\<open>VerandaModel\<close>\<close>

subsection \<open>Step 1: constants\<close>

definition roofXScales :: "(string \<times> real) list" where
  "roofXScales = [(''double'', 1.0), (''triple'', 1.005), (''fourfold'', 1.01),
                  (''fivefold'', 1.02), (''sixfold'', 1.03)]"

text \<open>\<^verbatim>\<open>roofXScales[glassType] || 1.0\<close>.\<close>

definition currentRoofScaleX :: "configuration \<Rightarrow> real" where
  "currentRoofScaleX cfg =
     (case map_of roofXScales (glassType cfg) of
        Some v \<Rightarrow> (if v = 0 then 1.0 else v)
      | None \<Rightarrow> 1.0)"

definition visibleAtStart :: "string list" where
  "visibleAtStart =
     [''normroofholder'', ''normroofglass'', ''normroof'',
      ''floor'',
      ''oneglassright'', ''oneglassleft'',
      ''twoglassholder'', ''twoglassholderbottom'', ''normroofholder '',
      ''leftpillar'', ''rightpillar'',
      ''borderglassleft'', ''borderglassright'',
      ''lightsround'', ''doubleglasssliderleft'', ''doubleglasssliderright'']"

definition alwaysVisibleStructural :: "string list" where
  "alwaysVisibleStructural = []"

text \<open>A glass family. The fields \<^verbatim>\<open>leftGlasses\<close> and \<^verbatim>\<open>rightGlasses\<close> of the source are
  never read and are left out.\<close>

record glass_config =
  borders :: "string list"
  holders :: "string list"
  glasses :: "string list"
  sliders :: "string list"
  singleGlasses :: "string list option"
  grid :: string
  pillarScale :: "real \<times> real \<times> real"

definition glass_double :: glass_config where
  "glass_double =
     \<lparr>borders = [''borderglassleft'', ''borderglassright''],
      holders = [''twoglassholder'', ''twoglassholderbottom''],
      glasses = [''oneglassleft'', ''oneglassright''],
      sliders = [''doubleglasssliderleft'', ''doubleglasssliderright''],
      singleGlasses = Some [''oneglassleft'', ''oneglassright''],
      grid = ''griddouble'',
      pillarScale = (1.0, 1.0, 1.0)\<rparr>"

definition glass_triple :: glass_config where
  "glass_triple =
     \<lparr>borders = [''borderglasslefttriple'', ''borderglassmidtriple'', ''borderglassrighttriple''],
      holders = [''tripleglassholder'', ''tripleglassholderbottom''],
      glasses = [''tripleleftglass'', ''triplemidglass'', ''triplerightglass''],
      sliders = [''tripleglasssliderleft'', ''tripleglassslidermid'', ''tripleglasssliderright''],
      singleGlasses = None,
      grid = ''gridtriple'',
      pillarScale = (1.4, 1.4, 1.4)\<rparr>"

definition glass_fourfold :: glass_config where
  "glass_fourfold =
     \<lparr>borders = [''borderglassfourleft'', ''borderglassfoursecond'', ''borderglassfourthird'', ''borderglassfourright''],
      holders = [''fourglassholder'', ''fourglassholderbottom''],
      glasses = [''fourfirstglass'', ''foursecondglass'', ''fourthirdglass'', ''fourlastglass''],
      sliders = [''glasssliderfourleft'', ''glasssliderfoursecond'', ''glasssliderfourthird'', ''glasssliderfourright''],
      singleGlasses = None,
      grid = ''gridfourfold'',
      pillarScale = (1.6, 1.6, 1.6)\<rparr>"

definition glass_fivefold :: glass_config where
  "glass_fivefold =
     \<lparr>borders = [''borderglassfiveleft'', ''borderglassfivesecond'', ''borderglassfivethird'', ''borderglassfivefourth'', ''borderglassfiveright''],
      holders = [''fiveglassholder'', ''fiveglassholderbottom''],
      glasses = [''fivefirstglass'', ''fivesecondglass'', ''fivethirdglass'', ''fivefourthglass'', ''fivelastglass''],
      sliders = [''glasssliderfiveleft'', ''glasssliderfivesecond'', ''glasssliderfivethird'', ''glasssliderfivefour'', ''glasssliderfiveright''],
      singleGlasses = None,
      grid = ''gridfivefold'',
      pillarScale = (1.85, 1.85, 1.85)\<rparr>"

definition glass_sixfold :: glass_config where
  "glass_sixfold =
     \<lparr>borders = [''borderglasssixleft'', ''borderglasssixsecond'', ''borderglasssixthird'', ''borderglasssixfourth'', ''borderglasssixfifth'', ''borderglasssixright''],
      holders = [''sixglassholder'', ''sixglassholderbottom''],
      glasses = [''sixfirstglass'', ''sixsecondglass'', ''sixthirdglass'', ''sixfourthglass'', ''sixfifthglass'', ''sixlastglass''],
      sliders = [''glasslidersixleft'', ''glassslidersixsecond'', ''glasslidersixthird'', ''glasslidersixfour'', ''glasslidersixfifth'', ''glasslidersixright''],
      singleGlasses = None,
      grid = ''gridsixfold'',
      pillarScale = (2.2, 2.1, 2.1)\<rparr>"

text \<open>
  \<^verbatim>\<open>glassConfigs\<close>, the entries in source order. A lookup \<^verbatim>\<open>glassConfigs[key]\<close> is modelled
  on the object's own keys; a key that names a member inherited from \<^verbatim>\<open>Object.prototype\<close>
  (listed in \<open>prototype_keys\<close>) would find that member instead, and such keys are outside
  the model.
\<close>

definition glassConfigs :: "(string \<times> glass_config) list" where
  "glassConfigs =
     [(''double'', glass_double), (''triple'', glass_triple), (''fourfold'', glass_fourfold),
      (''fivefold'', glass_fivefold), (''sixfold'', glass_sixfold)]"


text \<open>\<^verbatim>\<open>glassConfigs[glassType] || glassConfigs.double\<close>.\<close>

definition currentGlassConfig :: "configuration \<Rightarrow> glass_config" where
  "currentGlassConfig cfg =
     (case map_of glassConfigs (glassType cfg) of Some c \<Rightarrow> c | None \<Rightarrow> glass_double)"

definition getFrameColor :: "configuration \<Rightarrow> string" where
  "getFrameColor cfg =
     (if metalMaterial cfg = ''anthracite'' then ''#28282d''
      else if metalMaterial cfg = ''black'' then ''#000000''
      else if metalMaterial cfg = ''grey'' then ''#808080''
      else if metalMaterial cfg = ''white'' then ''#f5f5f5''
      else ''#28282d'')"

definition frameMaterial :: "configuration \<Rightarrow> material" where
  "frameMaterial cfg = StandardMaterial (getFrameColor cfg) 0.8 0.2"

text \<open>\<^verbatim>\<open>GLASS_TINT_COLORS\<close>: key, colour and opacity.\<close>

definition tint_clear :: "string \<times> real" where
  "tint_clear = (''#ffffff'', 0.3)"

definition GLASS_TINT_COLORS :: "(string \<times> string \<times> real) list" where
  "GLASS_TINT_COLORS =
     [(''clear'', tint_clear), (''lightgrey'', ''#b0b0b0'', 0.4),
      (''smokegrey'', ''#707070'', 0.5), (''bronze'', ''#cd7f32'', 0.45),
      (''green'', ''#90c090'', 0.4), (''blue'', ''#a0c0e0'', 0.4)]"

text \<open>\<^verbatim>\<open>getGlassMaterial\<close>, with \<^verbatim>\<open>GLASS_TINT_COLORS[glassColor] || GLASS_TINT_COLORS.clear\<close>: colour, transmission and opacity of the physical material.\<close>

definition getGlassMaterial :: "configuration \<Rightarrow> material" where
  "getGlassMaterial cfg =
     (let tintConfig = (case map_of GLASS_TINT_COLORS (glassColor cfg) of
                          Some t \<Rightarrow> t | None \<Rightarrow> tint_clear)
      in if \<not> tintedGlassEnabled cfg \<or> glassColor cfg = ''clear''
         then GlassMaterial ''#ffffff'' 0.95 0.3
         else GlassMaterial (fst tintConfig) 0.85 (snd tintConfig))"

text \<open>The light material: colour, emissive colour, emissive intensity and opacity.\<close>

definition lightMaterial :: "configuration \<Rightarrow> material" where
  "lightMaterial cfg =
     (let lightEmissiveColor = (if timeOfDay cfg = ''night'' then lightColor cfg else ''#000000'');
          lightIntensity = (if timeOfDay cfg = ''night'' then 1.5 else 0)
      in LightMaterial
           (if lightsOn cfg
            then (if metalMaterial cfg = ''anthracite'' then ''#f5f5f5'' else ''#28282d'')
            else ''#333333'')
           (if lightsOn cfg then lightEmissiveColor else ''#000000'')
           (if lightsOn cfg then lightIntensity else 0)
           (if lightsOn cfg then 1 else 0.3))"

text \<open>All parts of one family: borders, holders, glasses, sliders and the grid.\<close>

definition family_parts :: "glass_config \<Rightarrow> string list" where
  "family_parts c = borders c @ holders c @ glasses c @ sliders c @ [grid c]"

definition allGlassObjects :: "string list" where
  "allGlassObjects =
     concat (map (\<lambda>(type, config). if type \<noteq> ''double'' then family_parts config else [])
                 glassConfigs)"

definition widthScale :: "configuration \<Rightarrow> real" where
  "widthScale cfg = width cfg / 3"

definition depthScale :: "configuration \<Rightarrow> real" where
  "depthScale cfg = depth cfg / 3"

definition heightScale :: "configuration \<Rightarrow> real" where
  "heightScale cfg = height cfg / 3"

subsection \<open>Step 2: scale the model\<close>

text \<open>\<^verbatim>\<open>modelRef.current\<close> is the scene root.\<close>

fun scale_model :: "configuration \<Rightarrow> node object3d \<Rightarrow> node object3d" where
  "scale_model cfg (Object3D model_root kids) =
     Object3D (model_root\<lparr>scale_x := widthScale cfg, scale_y := heightScale cfg,
                    scale_z := depthScale cfg\<rparr>) kids"

subsection \<open>Step 3: unbind Material.006\<close>

definition initialBlackMaterial :: material where
  "initialBlackMaterial = StandardMaterial ''#000000ff'' 0.8 0.2"

definition unbind_material :: "node \<Rightarrow> node" where
  "unbind_material child =
     (if \<not> isMesh child then child
      else case material child of
        None \<Rightarrow> child
      | Some m \<Rightarrow>
          (if material_name m = ''Material.006''
           then child\<lparr>material := Some initialBlackMaterial\<rparr> else child))"

subsection \<open>Step 4: main visibility logic\<close>

text \<open>Each lettered section of the traversal callback is a function on the visited mesh.
  The floor reference and the floor material's opacity flags are not part of the node state
  kept here.\<close>

definition wallMountedHiddenObjects :: "string list" where
  "wallMountedHiddenObjects =
     [''leftbackpiller'', ''rightbackpiller'', ''righbackpiller'', ''backglass'', ''backholder'']"

definition freestandingVisibleObjects :: "string list" where
  "freestandingVisibleObjects =
     [''leftbackpiller'', ''rightbackpiller'', ''righbackpiller'', ''backglass'', ''backholder'']"

definition section_A :: "configuration \<Rightarrow> node \<Rightarrow> node" where
  "section_A cfg child =
     (let childNameLower = toLowerCase (name child) in
      if verandaType cfg = ''wall-mounted'' then
        (let c1 = (if childNameLower \<in> set wallMountedHiddenObjects
                   then child\<lparr>visible := False\<rparr> else child);
             c2 = (if childNameLower = ''normroof'' then c1\<lparr>visible := False\<rparr> else c1)
         in if childNameLower = ''pitchnormroof'' then c2\<lparr>visible := True\<rparr> else c2)
      else if verandaType cfg = ''freestanding'' then
        (let c1 = (if childNameLower \<in> set freestandingVisibleObjects
                   then child\<lparr>visible := True\<rparr> else child);
             c2 = (if childNameLower = ''normroof'' then c1\<lparr>visible := True\<rparr> else c1)
         in if childNameLower = ''pitchnormroof'' then c2\<lparr>visible := False\<rparr> else c2)
      else child)"

definition section_B :: "configuration \<Rightarrow> node \<Rightarrow> node" where
  "section_B cfg child =
     (let childNameLower = toLowerCase (name child) in
      if childNameLower = ''leftpillar'' \<or> childNameLower = ''rightpillar''
      then child\<lparr>scale_x := fst (pillarScale (currentGlassConfig cfg))\<rparr>
      else child)"

definition frontPillarNames :: "string list" where
  "frontPillarNames = [''leftpiller'', ''rightpiller'']"

definition section_C :: "configuration \<Rightarrow> node \<Rightarrow> node" where
  "section_C cfg child =
     (if toLowerCase (name child) \<in> set frontPillarNames
      then child\<lparr>visible := True\<rparr> else child)"

definition freestandingBackElements :: "string list" where
  "freestandingBackElements =
     [''backglass'', ''backholder'', ''leftbackpiller'', ''rightbackpiller'', ''righbackpiller'']"

definition section_D :: "configuration \<Rightarrow> node \<Rightarrow> node" where
  "section_D cfg child =
     (let childNameLower = toLowerCase (name child);
          isNonDoubleGlassObject = some_lower allGlassObjects childNameLower
      in if isNonDoubleGlassObject then child\<lparr>visible := False\<rparr>
         else if verandaType cfg = ''freestanding''
                 \<and> childNameLower \<in> set freestandingBackElements
         then child\<lparr>visible := True\<rparr>
         else child\<lparr>visible := some_lower visibleAtStart childNameLower\<rparr>)"

definition section_E :: "configuration \<Rightarrow> node \<Rightarrow> node" where
  "section_E cfg child =
     (if toLowerCase (name child) \<in> set alwaysVisibleStructural
      then child\<lparr>visible := True\<rparr> else child)"

text \<open>Sections F and G: the metal, wood and window parts of one side. All of them are
  hidden, then the set of the side's material is shown.\<close>

definition side_enclosure ::
  "string list \<Rightarrow> string list \<Rightarrow> string list \<Rightarrow> string \<Rightarrow> node \<Rightarrow> node" where
  "side_enclosure metalParts woodParts windowParts enclosureType child =
     (let childNameLower = toLowerCase (name child);
          c1 = (if some_lower (metalParts @ woodParts @ windowParts) childNameLower
                then child\<lparr>visible := False\<rparr> else child)
      in if enclosureType = ''metal'' then
           (if some_lower metalParts childNameLower then c1\<lparr>visible := True\<rparr> else c1)
         else if enclosureType = ''wood'' then
           (if some_lower woodParts childNameLower then c1\<lparr>visible := True\<rparr> else c1)
         else if enclosureType = ''window'' then
           (if some_lower windowParts childNameLower then c1\<lparr>visible := True\<rparr> else c1)
         else c1)"

definition section_F :: "configuration \<Rightarrow> node \<Rightarrow> node" where
  "section_F cfg child =
     (if enclosureEnabled cfg then
        side_enclosure [''metalleft'', ''metalholderleft'']
          [''woodleft'', ''woodholderleft'']
          [''windowwallleft'', ''windowleftone'', ''windowlefttwo'', ''windowleftholder2'',
           ''windowleftholder'']
          (or_else (entry_material (left_side (sideEnclosureTypes cfg))) ''glass'') child
      else child)"

definition section_G :: "configuration \<Rightarrow> node \<Rightarrow> node" where
  "section_G cfg child =
     (if enclosureEnabled cfg then
        side_enclosure [''metalright'', ''metalholderright'']
          [''woodright'', ''woodholderright'']
          [''windowwallright'', ''windowrightone'', ''windowrighttwo'', ''windowrightholder2'',
           ''windowrightholder'']
          (or_else (entry_material (right_side (sideEnclosureTypes cfg))) ''glass'') child
      else child)"

text \<open>Section H. The side of an object is read off the suffix of its name, its base name is
  the lower-case name with the first occurrence of the suffix removed.\<close>

definition isLeftObject :: "node \<Rightarrow> bool" where
  "isLeftObject child = endsWith (name child) ''001''"

definition isRightObject :: "node \<Rightarrow> bool" where
  "isRightObject child = endsWith (name child) ''002''"

definition isFrontObject :: "node \<Rightarrow> bool" where
  "isFrontObject child = (\<not> isLeftObject child \<and> \<not> isRightObject child)"

definition baseName :: "node \<Rightarrow> string" where
  "baseName child =
     (let childNameLower = toLowerCase (name child);
          b1 = (if isLeftObject child then remove_first ''001'' childNameLower
                else childNameLower)
      in if isRightObject child then remove_first ''002'' childNameLower else b1)"

text \<open>The parts list built for every family in step 4 of section H.\<close>

definition allParts :: "glass_config \<Rightarrow> string list" where
  "allParts config =
     family_parts config @ (case singleGlasses config of Some sg \<Rightarrow> sg | None \<Rightarrow> [])"

definition isAnyGlassObject :: "node \<Rightarrow> bool" where
  "isAnyGlassObject child =
     list_ex (\<lambda>(type, config). some_lower (allParts config) (baseName child)) glassConfigs"

definition sideGlassType :: "configuration \<Rightarrow> side_entry \<Rightarrow> string" where
  "sideGlassType cfg e = or_else (entry_glassType e) (glassType cfg)"

definition sideMaterial :: "side_entry \<Rightarrow> string" where
  "sideMaterial e = or_else (entry_material e) ''glass''"

text \<open>The entry of \<^verbatim>\<open>sideEnclosureTypes\<close> that governs an object.\<close>

definition targetEntry :: "configuration \<Rightarrow> node \<Rightarrow> side_entry" where
  "targetEntry cfg child =
     (if isFrontObject child then front_side (sideEnclosureTypes cfg)
      else if isLeftObject child then left_side (sideEnclosureTypes cfg)
      else right_side (sideEnclosureTypes cfg))"

text \<open>The body of \<^verbatim>\<open>if (targetConfig && targetMaterial === 'glass')\<close>, on the object
  already hidden.\<close>

definition show_in_target :: "configuration \<Rightarrow> glass_config \<Rightarrow> node \<Rightarrow> node" where
  "show_in_target cfg targetConfig child =
     (let b = baseName child;
          isHolder = some_lower (holders targetConfig) b;
          isPanel = some_lower (glasses targetConfig) b;
          isBorder = some_lower (borders targetConfig) b;
          isSlider = some_lower (sliders targetConfig) b;
          isSingle = (case singleGlasses targetConfig of
                        Some sg \<Rightarrow> some_lower sg b | None \<Rightarrow> False);
          isGrid = (b = toLowerCase (grid targetConfig))
      in if isHolder \<or> isPanel \<or> isBorder \<or> isSlider \<or> isSingle \<or> isGrid then
           (let c1 = (if isHolder \<or> isSlider then child\<lparr>visible := True\<rparr> else child);
                c2 = (if isPanel \<or> isSingle
                      then c1\<lparr>visible := True,
                              material := (if material c1 \<noteq> None
                                           then Some (getGlassMaterial cfg) else material c1)\<rparr>
                      else c1);
                c3 = (if isBorder
                      then c2\<lparr>visible := (glassStyle cfg = ''withframe'' \<or> glassStyle cfg = ''grid'')\<rparr>
                      else c2)
            in if isGrid then c3\<lparr>visible := (glassStyle cfg = ''grid'')\<rparr> else c3)
         else child)"

definition section_H :: "configuration \<Rightarrow> node \<Rightarrow> node" where
  "section_H cfg child =
     (if enclosureEnabled cfg then
        (if isAnyGlassObject child then
           (let hidden = child\<lparr>visible := False\<rparr>;
                targetConfig = map_of glassConfigs (sideGlassType cfg (targetEntry cfg child));
                targetMaterial = sideMaterial (targetEntry cfg child)
            in case targetConfig of
                 None \<Rightarrow> hidden
               | Some tc \<Rightarrow>
                   (if targetMaterial = ''glass'' then show_in_target cfg tc hidden else hidden))
         else child)
      else
        (if some_lower (holders glass_double @ glasses glass_double) (toLowerCase (name child))
         then child\<lparr>visible := True\<rparr> else child))"

text \<open>\<^verbatim>\<open>-THREE.MathUtils.degToRad(roofPitchAngle)\<close>.\<close>

definition angleRad :: "configuration \<Rightarrow> real" where
  "angleRad cfg = - (roofPitchAngle cfg * (pi / 180))"

definition flatRoofNames :: "string list" where
  "flatRoofNames = [''normroof'', ''normroofglass'', ''pitchnormroof'']"

definition pitchedRoofNames :: "string list" where
  "pitchedRoofNames = [''roofpitchbase'', ''roofpitchside'', ''roofpitchglass'', ''roofpitchshade'']"

definition normalLights :: "string list" where
  "normalLights = [''lightsround'', ''lightsrect'', ''lightssquare'']"

definition section_I :: "configuration \<Rightarrow> node \<Rightarrow> node" where
  "section_I cfg child =
     (let childNameLower = toLowerCase (name child) in
      if roofPitchActive cfg then
        (let c1 = (if childNameLower \<in> set flatRoofNames
                   then child\<lparr>visible := False\<rparr> else child);
             c2 = (if childNameLower \<in> set normalLights then c1\<lparr>visible := False\<rparr> else c1);
             c3 = (if childNameLower \<in> set pitchedRoofNames
                   then c2\<lparr>visible := True\<rparr> else c2);
             c4 = (if childNameLower = ''roofpitchglass''
                   then c3\<lparr>scale_y := 1 + (roofPitchAngle cfg / 15) * 2.5, visible := True\<rparr>
                   else c3);
             c5 = (if childNameLower = ''roofpitchside''
                   then c4\<lparr>rotation_x := angleRad cfg,
                           scale_z := 1 + (roofPitchAngle cfg / 15) * 0.1\<rparr>
                   else c4)
         in if childNameLower = ''roofpitchshade'' then c5\<lparr>rotation_x := angleRad cfg\<rparr> else c5)
      else
        (let c1 = (if childNameLower \<in> set pitchedRoofNames
                   then child\<lparr>visible := False\<rparr> else child);
             c2 = (if childNameLower = ''normroofglass'' then c1\<lparr>visible := True\<rparr> else c1)
         in if verandaType cfg = ''wall-mounted'' then
              (let c3 = (if childNameLower = ''pitchnormroof''
                         then c2\<lparr>visible := True\<rparr> else c2)
               in if childNameLower = ''normroof'' then c3\<lparr>visible := False\<rparr> else c3)
            else if verandaType cfg = ''freestanding'' then
              (let c3 = (if childNameLower = ''normroof'' then c2\<lparr>visible := True\<rparr> else c2)
               in if childNameLower = ''pitchnormroof'' then c3\<lparr>visible := False\<rparr> else c3)
            else c2))"

text \<open>Section J. \<^verbatim>\<open>userData.originalY\<close> and \<^verbatim>\<open>originalZ\<close> are written only while
  they are undefined, with the position of that moment.\<close>

definition capture_original :: "node \<Rightarrow> node" where
  "capture_original child =
     (let c1 = (if originalY child = None
                then child\<lparr>originalY := Some (position_y child)\<rparr> else child)
      in if originalZ c1 = None then c1\<lparr>originalZ := Some (position_z c1)\<rparr> else c1)"

definition stored :: "real option \<Rightarrow> real \<Rightarrow> real" where
  "stored v d = (case v of Some x \<Rightarrow> x | None \<Rightarrow> d)"

definition section_J :: "configuration \<Rightarrow> node \<Rightarrow> node" where
  "section_J cfg child =
     (let childNameLower = toLowerCase (name child) in
      if roofAwningPosition cfg = ''top'' then
        (if roofPitchActive cfg then
           (let c1 = (if childNameLower \<in> set [''roofpitchawn'', ''roofpitchawnfabric''] then
                        (let c = capture_original
                                   (child\<lparr>visible := True, rotation_x := angleRad cfg,
                                            scale_z := 1\<rparr>)
                         in c\<lparr>position_y := stored (originalY c) (position_y c) + 0.02
                                               + roofPitchAngle cfg * 0.01,
                              position_z := stored (originalZ c) (position_z c) + (- 0.02)\<rparr>)
                      else child)
            in if childNameLower \<in> set [''normawn'', ''normawnfabric'']
               then c1\<lparr>visible := False\<rparr> else c1)
         else
           (let c1 = (if childNameLower \<in> set [''normawn'', ''normawnfabric''] then
                        (let c = capture_original (child\<lparr>visible := True, scale_z := 1\<rparr>)
                         in c\<lparr>position_y := stored (originalY c) (position_y c),
                              position_z := stored (originalZ c) (position_z c)\<rparr>)
                      else child)
            in if childNameLower \<in> set [''roofpitchawn'', ''roofpitchawnfabric'']
               then c1\<lparr>visible := False\<rparr> else c1))
      else
        (if childNameLower \<in> set [''normawn'', ''normawnfabric'', ''roofpitchawn'',
                                     ''roofpitchawnfabric'']
         then child\<lparr>visible := False\<rparr> else child))"

definition show_light :: "configuration \<Rightarrow> node \<Rightarrow> node" where
  "show_light cfg child =
     child\<lparr>visible := True,
           material := (if material child \<noteq> None then Some (lightMaterial cfg)
                        else material child)\<rparr>"

definition roofGlassObjects :: "string list" where
  "roofGlassObjects = [''normroofglass'', ''roofpitchglass'']"

definition section_K :: "configuration \<Rightarrow> node \<Rightarrow> node" where
  "section_K cfg child =
     (let childNameLower = toLowerCase (name child);
          c1 = (if some_lower normalLights childNameLower
                then child\<lparr>visible := False\<rparr> else child);
          c2 = (if lightsOn cfg \<and> \<not> roofPitchActive cfg then
                  (if lightShape cfg = ''circle'' \<and> childNameLower = ''lightsround''
                   then show_light cfg c1
                   else if lightShape cfg = ''rectangle'' \<and> childNameLower = ''lightsrect''
                   then show_light cfg c1
                   else if lightShape cfg = ''square'' \<and> childNameLower = ''lightssquare''
                   then show_light cfg c1
                   else c1)
                else c1)
      in if childNameLower \<in> set roofGlassObjects \<and> material c2 \<noteq> None
         then c2\<lparr>material := Some (getGlassMaterial cfg)\<rparr> else c2)"

text \<open>The array literal of the source has an empty slot after
  \<^verbatim>\<open>'roofpitchlightssquare'\<close>, which \<^verbatim>\<open>some\<close> skips.\<close>

definition excludedFromFrameColor :: "string list" where
  "excludedFromFrameColor =
     [''normroofglass'', ''backglass'', ''woodleft'', ''woodright'',
      ''lightsround'', ''lightsrect'', ''lightssquare'',
      ''roofpitchlightround'', ''roofpitchlightsrect'', ''roofpitchlightssquare'',
      ''roofpitchglass'',
      ''oneglassleft'', ''oneglassright'',
      ''tripleleftglass'', ''triplemidglass'', ''triplerightglass'',
      ''fourfirstglass'', ''foursecondglass'', ''fourthirdglass'', ''fourlastglass'',
      ''fivefirstglass'', ''fivesecondglass'', ''fivethirdglass'', ''fivefourthglass'', ''fivelastglass'',
      ''sixfirstglass'', ''sixsecondglass'', ''sixthirdglass'', ''sixfourthglass'', ''sixfifthglass'', ''sixlastglass'',
      ''doubleglasssliderleft'', ''doubleglasssliderright'',
      ''tripleglasssliderleft'', ''tripleglassslidermid'', ''tripleglasssliderright'',
      ''glasssliderfourleft'', ''glasssliderfoursecond'', ''glasssliderfourthird'', ''glasssliderfourright'',
      ''glasssliderfiveleft'', ''glasssliderfivesecond'', ''glasssliderfivethird'', ''glasssliderfivefour'', ''glasssliderfiveright'',
      ''glassslidersixleft'', ''glassslidersixsecond'', ''glassslidersixthird'', ''glassslidersixfour'', ''glassslidersixfifth'', ''glassslidersixright'',
      ''leftglass'', ''rightglass'',
      ''windowleftone'', ''windowlefttwo'',
      ''windowrightone'', ''windowrighttwo'',
      ''normawnfabric'', ''roofpitchawnfabric'', ''floor'']"

definition backElements :: "string list" where
  "backElements = [''leftbackpiller'', ''rightbackpiller'', ''righbackpiller'', ''backholder'']"

definition section_L :: "configuration \<Rightarrow> node \<Rightarrow> node" where
  "section_L cfg child =
     (let childNameLower = toLowerCase (name child) in
      if childNameLower \<in> set backElements \<and> visible child \<and> material child \<noteq> None
      then child\<lparr>material := Some (frameMaterial cfg)\<rparr>
      else
        (let isExcluded = some_lower excludedFromFrameColor childNameLower;
             isGlassObject = (js_includes childNameLower ''glass''
                              \<and> \<not> js_includes childNameLower ''holder''
                              \<and> \<not> js_includes childNameLower ''border'');
             shouldGetFrameColor = (\<not> isExcluded \<and> \<not> isGlassObject)
         in if visible child \<and> shouldGetFrameColor \<and> material child \<noteq> None
            then child\<lparr>material := Some (frameMaterial cfg)\<rparr> else child))"

definition main_visibility :: "configuration \<Rightarrow> node \<Rightarrow> node" where
  "main_visibility cfg child =
     (if \<not> isMesh child then child
      else section_L cfg (section_K cfg (section_J cfg (section_I cfg (section_H cfg
             (section_G cfg (section_F cfg (section_E cfg (section_D cfg (section_C cfg
               (section_B cfg (section_A cfg
                 (child\<lparr>castShadow := True, receiveShadow := True\<rparr>)))))))))))))"

subsection \<open>Step 5: glass holders follow the depth\<close>

definition depthScalingHolders :: "string list" where
  "depthScalingHolders =
     [''twoglassholder'', ''twoglassholderbottom'', ''tripleglassholder'',
      ''tripleglassholderbottom'', ''fourglassholder'', ''fourglassholderbottom'',
      ''fiveglassholder'', ''fiveglassholderbottom'', ''sixglassholder'',
      ''sixglassholderbottom'']"

definition counter_scale :: "configuration \<Rightarrow> node \<Rightarrow> node" where
  "counter_scale cfg child =
     (if \<not> isMesh child then child
      else
        (let childNameLower = toLowerCase (name child);
             b1 = (if endsWith childNameLower ''001'' then slice_off3 childNameLower
                   else childNameLower);
             b = (if endsWith childNameLower ''002'' then slice_off3 childNameLower else b1)
         in if b \<in> set depthScalingHolders then child\<lparr>scale_z := depthScale cfg\<rparr>
            else child))"

subsection \<open>Step 6: roof scaling\<close>

definition roof_scaling :: "configuration \<Rightarrow> node \<Rightarrow> node" where
  "roof_scaling cfg child =
     (if \<not> isMesh child then child
      else
        (let childNameLower = toLowerCase (name child) in
         if childNameLower = ''normroof''
         then child\<lparr>scale_x := 1, scale_y := 1, scale_z := currentRoofScaleX cfg\<rparr>
         else if childNameLower \<in> set [''normroofglass'', ''normroofholder'']
         then child\<lparr>scale_x := currentRoofScaleX cfg, scale_y := 1, scale_z := 1\<rparr>
         else child))"

subsection \<open>The whole effect\<close>

definition resolve_node :: "configuration \<Rightarrow> node \<Rightarrow> node" where
  "resolve_node cfg child =
     roof_scaling cfg (counter_scale cfg (main_visibility cfg (unbind_material child)))"

definition resolve :: "configuration \<Rightarrow> node object3d \<Rightarrow> node object3d" where
  "resolve cfg scene =
     traverse (roof_scaling cfg)
       (traverse (counter_scale cfg)
         (traverse (main_visibility cfg)
           (traverse unbind_material (scale_model cfg scene))))"

section \<open>Rule-based interpreter\<close>

subsection \<open>Regular expressions\<close>

text \<open>
  The patterns of \<^verbatim>\<open>interpretUserInput\<close> that decide the glass type and the enclosure are
  made of literals, \<^verbatim>\<open>\b\<close>, \<^verbatim>\<open>.?\<close>, \<^verbatim>\<open>.*\<close> and alternation. A pattern without alternation
  is a list of items; a pattern with alternation is the list of its alternatives, written
  out, and \<^verbatim>\<open>test\<close> succeeds when one of them matches somewhere. Input is Latin-1 text.
\<close>

datatype item = WordBoundary | Lit string | OptAny | AnyStar

definition word_char :: "char \<Rightarrow> bool" where
  "word_char c \<longleftrightarrow>
     c \<in> set ''abcdefghijklmnopqrstuvwxyzABCDEFGHIJKLMNOPQRSTUVWXYZ0123456789_''"

definition line_terminator :: "char \<Rightarrow> bool" where
  "line_terminator c \<longleftrightarrow> c = CHR 0x0A \<or> c = CHR 0x0D"

fun word_before :: "char option \<Rightarrow> bool" where
  "word_before None = False"
| "word_before (Some c) = word_char c"

fun word_next :: "string \<Rightarrow> bool" where
  "word_next [] = False"
| "word_next (c # cs) = word_char c"

fun starts_with :: "string \<Rightarrow> string \<Rightarrow> bool" where
  "starts_with [] s = True"
| "starts_with (x # xs) [] = False"
| "starts_with (x # xs) (y # ys) = (x = y \<and> starts_with xs ys)"

fun last_char :: "string \<Rightarrow> char option \<Rightarrow> char option" where
  "last_char [] prev = prev"
| "last_char (x # xs) prev = last_char xs (Some x)"

text \<open>\<open>match_here p prev s\<close>: the pattern matches a prefix of \<open>s\<close>, where \<open>prev\<close> is the
  character before \<open>s\<close> in the input.\<close>

fun match_here :: "item list \<Rightarrow> char option \<Rightarrow> string \<Rightarrow> bool" where
  "match_here [] prev s = True"
| "match_here (WordBoundary # r) prev s =
     (word_before prev \<noteq> word_next s \<and> match_here r prev s)"
| "match_here (Lit w # r) prev s =
     (starts_with w s \<and> match_here r (last_char w prev) (drop (length w) s))"
| "match_here (OptAny # r) prev [] = match_here r prev []"
| "match_here (OptAny # r) prev (c # cs) =
     (match_here r prev (c # cs) \<or> (\<not> line_terminator c \<and> match_here r (Some c) cs))"
| "match_here (AnyStar # r) prev [] = match_here r prev []"
| "match_here (AnyStar # r) prev (c # cs) =
     (match_here r prev (c # cs)
      \<or> (\<not> line_terminator c \<and> match_here (AnyStar # r) (Some c) cs))"

fun test_from :: "item list \<Rightarrow> char option \<Rightarrow> string \<Rightarrow> bool" where
  "test_from p prev [] = match_here p prev []"
| "test_from p prev (c # cs) = (match_here p prev (c # cs) \<or> test_from p (Some c) cs)"

text \<open>\<^verbatim>\<open>pattern.test(s)\<close> for a pattern given by its alternatives.\<close>

definition test :: "item list list \<Rightarrow> string \<Rightarrow> bool" where
  "test alternatives s = list_ex (\<lambda>p. test_from p None s) alternatives"

text \<open>\<^verbatim>\<open>/\b(w1|w2|...)\b/\<close>, every alternative an item list.\<close>

definition whole :: "item list list \<Rightarrow> item list list" where
  "whole alts = map (\<lambda>a. WordBoundary # a @ [WordBoundary]) alts"

definition words :: "string list \<Rightarrow> item list list" where
  "words ws = whole (map (\<lambda>w. [Lit w]) ws)"

text \<open>\<^verbatim>\<open>/\b(a1|a2|...).*(fold|panel|glass|pane)\b/\<close>.\<close>

definition count_then_part :: "string list \<Rightarrow> item list list" where
  "count_then_part counts =
     concat (map (\<lambda>a. map (\<lambda>b. [WordBoundary, Lit a, AnyStar, Lit b, WordBoundary])
                           [''fold'', ''panel'', ''glass'', ''pane''])
                 counts)"

subsection \<open>\<^verbatim>\<open>interpretUserInput\<close>\<close>

text \<open>
  The fields of the local \<^verbatim>\<open>config\<close> that steps 2, 7 and 8 write, with
  \<^verbatim>\<open>glassDetected\<close>. The other steps write the colour, the dimensions, the glass style, the
  lights and the roof, and none of these fields.
\<close>

record ai_config =
  ai_glassType :: string
  ai_enclosureEnabled :: bool
  ai_enclosureType :: string
  ai_selectedSide :: "string option"
  glassDetected :: bool

definition default_config :: ai_config where
  "default_config =
     \<lparr>ai_glassType = ''double'', ai_enclosureEnabled = True, ai_enclosureType = ''glass'',
      ai_selectedSide = Some ''front'', glassDetected = False\<rparr>"

definition detected :: "string \<Rightarrow> ai_config \<Rightarrow> ai_config" where
  "detected family config =
     config\<lparr>ai_glassType := family, ai_enclosureEnabled := True,
            ai_selectedSide := Some ''front'', glassDetected := True\<rparr>"

definition step2 :: "string \<Rightarrow> ai_config \<Rightarrow> ai_config" where
  "step2 inputLower config =
     (if test (count_then_part [''six'', ''6'']) inputLower
         \<or> (test (words [''six'']) inputLower \<and> test (words [''glass'']) inputLower)
      then detected ''sixfold'' config
      else if test (count_then_part [''five'', ''5'']) inputLower
         \<or> (test (words [''five'']) inputLower \<and> test (words [''glass'']) inputLower)
      then detected ''fivefold'' config
      else if test (count_then_part [''four'', ''4'']) inputLower
         \<or> (test (words [''four'']) inputLower \<and> test (words [''glass'']) inputLower)
      then detected ''fourfold'' config
      else if test (count_then_part [''triple'', ''three'', ''3'']) inputLower
         \<or> (test (words [''triple'', ''three'']) inputLower \<and> test (words [''glass'']) inputLower)
      then detected ''triple'' config
      else if test (count_then_part [''double'', ''two'', ''2'']) inputLower
         \<or> (test (words [''double'', ''two'']) inputLower \<and> test (words [''glass'']) inputLower)
      then detected ''double'' config
      else config)"

definition step7 :: "string \<Rightarrow> ai_config \<Rightarrow> ai_config" where
  "step7 inputLower config =
     (let c1 =
        (if test (whole [[Lit ''open''], [Lit ''airy''], [Lit ''no'', OptAny, Lit ''walls''],
                         [Lit ''no'', OptAny, Lit ''enclosure'']]) inputLower
         then config\<lparr>ai_enclosureEnabled := False, ai_selectedSide := None\<rparr>
         else if test (words [''glass'', ''window'', ''transparent'', ''enclosed'']) inputLower
         then (let c = config\<lparr>ai_enclosureEnabled := True, ai_enclosureType := ''glass''\<rparr>
               in if ai_selectedSide c = None \<or> ai_selectedSide c = Some []
                  then c\<lparr>ai_selectedSide := Some ''front''\<rparr> else c)
         else config)
      in if \<not> glassDetected c1
            \<and> test (words [''sliding'', ''flexible'', ''movable'', ''retractable'']) inputLower
         then c1\<lparr>ai_glassType := ''fourfold'', ai_enclosureEnabled := True,
                 ai_selectedSide := Some ''front''\<rparr>
         else c1)"

definition step8 :: "string \<Rightarrow> ai_config \<Rightarrow> ai_config" where
  "step8 inputLower config =
     (if \<not> glassDetected config then
        (if test (whole [[Lit ''luxury''], [Lit ''premium''], [Lit ''high'', OptAny, Lit ''end''],
                         [Lit ''expensive''], [Lit ''best''], [Lit ''finest''],
                         [Lit ''top'', OptAny, Lit ''quality'']]) inputLower
         then config\<lparr>ai_glassType := ''sixfold'', ai_enclosureEnabled := True,
                     ai_selectedSide := Some ''front''\<rparr>
         else if test (words [''budget'', ''cheap'', ''affordable'', ''economical'', ''basic''])
                   inputLower
         then config\<lparr>ai_glassType := ''double''\<rparr>
         else config)
      else config)"

text \<open>The local \<^verbatim>\<open>config\<close> when the end of the function body is reached.\<close>

definition final_config :: "string \<Rightarrow> ai_config" where
  "final_config input =
     (let inputLower = toLowerCase input
      in step8 inputLower (step7 inputLower (step2 inputLower default_config)))"

text \<open>
  The function body ends after step 11, in an empty section \<^verbatim>\<open>GENERATE RESPONSE\<close>: there is
  no \<^verbatim>\<open>return\<close> statement, so every call returns \<^verbatim>\<open>undefined\<close>, here \<open>None\<close>; the
  \<^verbatim>\<open>history\<close> is read by step 11 only.
\<close>

definition interpretUserInput :: "string \<Rightarrow> string list \<Rightarrow> ai_config option" where
  "interpretUserInput input history = (let config = final_config input in None)"

section \<open>Host state\<close>

text \<open>The initial state of \<^verbatim>\<open>VerandaConfiguratorFinal\<close>: the \<^verbatim>\<open>useState\<close> defaults with the
  \<^verbatim>\<open>tussenwoning\<close> house type.\<close>

definition initial_state :: configuration where
  "initial_state =
     \<lparr>roofPitchActive = True, roofPitchAngle = 0, roofAwningPosition = ''none'',
      metalMaterial = ''anthracite'', enclosureEnabled = True, lightsOn = False,
      lightShape = ''circle'', timeOfDay = ''day'', lightColor = ''#ffd700'',
      glassType = ''triple'', glassStyle = ''withframe'', width = 5, depth = 4.5, height = 3,
      sideEnclosureTypes =
        \<lparr>front_side = EntryObj (Some ''glass'') (Some ''triple''),
         left_side = EntryObj (Some ''glass'') (Some ''triple''),
         right_side = EntryObj (Some ''glass'') (Some ''triple'')\<rparr>,
      verandaType = ''wall-mounted'', tintedGlassEnabled = False, glassColor = ''clear''\<rparr>"

text \<open>
  The last step of \<^verbatim>\<open>handleApplyAIConfig\<close>:
  \<^verbatim>\<open>if (config.selectedSide && config.enclosureType)
     setSideEnclosureTypes(prev => ({ ...prev, [config.selectedSide]: config.enclosureType }))\<close>.
  The entry of the selected side becomes the bare string. A key other than the three sides
  adds a property that nothing reads.
\<close>

definition apply_side_enclosure :: "string \<Rightarrow> string \<Rightarrow> side_types \<Rightarrow> side_types" where
  "apply_side_enclosure selectedSide enclosureType prev =
     (if selectedSide = [] \<or> enclosureType = [] then prev
      else if selectedSide = ''front'' then prev\<lparr>front_side := EntryStr enclosureType\<rparr>
      else if selectedSide = ''left'' then prev\<lparr>left_side := EntryStr enclosureType\<rparr>
      else if selectedSide = ''right'' then prev\<lparr>right_side := EntryStr enclosureType\<rparr>
      else prev)"



section \<open>Example scenes and configurations\<close>

text \<open>A mesh as the loader delivers it: visible, with an authored material, unit scale, no
  \<^verbatim>\<open>userData\<close> and no shadows. The model root is a group.\<close>

definition mesh :: "string \<Rightarrow> node" where
  "mesh nm =
     \<lparr>name = nm, isMesh = True, visible = True, material = Some (Authored ''Material.001''),
      scale_x = 1, scale_y = 1, scale_z = 1, rotation_x = 0, position_y = 2, position_z = 0,
      originalY = None, originalZ = None, castShadow = False, receiveShadow = False\<rparr>"

definition model_group :: node where
  "model_group =
     \<lparr>name = ''Scene'', isMesh = False, visible = True, material = None,
      scale_x = 1, scale_y = 1, scale_z = 1, rotation_x = 0, position_y = 0, position_z = 0,
      originalY = None, originalZ = None, castShadow = False, receiveShadow = False\<rparr>"

definition roof_scene :: "node object3d" where
  "roof_scene =
     Object3D model_group [Object3D (mesh ''roofpitchglass'') []]"


text \<open>The initial state with the pitched roof switched off, with the pitch at 15 degrees, and
  with the enclosure switched off.\<close>

definition flat_state :: configuration where
  "flat_state = initial_state\<lparr>roofPitchActive := False\<rparr>"

definition pitched_state :: configuration where
  "pitched_state = initial_state\<lparr>roofPitchAngle := 15\<rparr>"




section \<open>Properties of the pricing system\<close>

lemma foldl_closest_mem:
  "foldl (\<lambda>prev cur. if closer t cur prev then cur else prev) k ks \<in> set (k # ks)"
  by (induction ks rule: rev_induct) auto

lemma foldl_closest_least:
  "x \<in> set (k # ks) \<Longrightarrow>
   \<bar>real (foldl (\<lambda>prev cur. if closer (Fin t) cur prev then cur else prev) k ks) - t\<bar> \<le> \<bar>real x - t\<bar>"
proof (induction ks arbitrary: x rule: rev_induct)
  case Nil
  then show ?case by simp
next
  case (snoc y ys)
  let ?r = "foldl (\<lambda>prev cur. if closer (Fin t) cur prev then cur else prev) k ys"
  show ?case
  proof (cases "x = y")
    case True
    then show ?thesis by simp
  next
    case False
    with snoc.prems have "x \<in> set (k # ys)" by auto
    then have "\<bar>real ?r - t\<bar> \<le> \<bar>real x - t\<bar>" by (rule snoc.IH)
    then show ?thesis by simp
  qed
qed

lemma foldl_closest_tie:
  "sorted (k # ks) \<Longrightarrow> x \<in> set (k # ks) \<Longrightarrow>
   \<bar>real x - t\<bar> = \<bar>real (foldl (\<lambda>prev cur. if closer (Fin t) cur prev then cur else prev) k ks) - t\<bar> \<Longrightarrow>
   foldl (\<lambda>prev cur. if closer (Fin t) cur prev then cur else prev) k ks \<le> x"
proof (induction ks arbitrary: x rule: rev_induct)
  case Nil
  then show ?case by simp
next
  case (snoc y ys)
  let ?r = "foldl (\<lambda>prev cur. if closer (Fin t) cur prev then cur else prev) k ys"
  from snoc.prems(1) have srt: "sorted (k # ys)" and top: "\<forall>z \<in> set (k # ys). z \<le> y"
    by (auto simp: sorted_append)
  have rmem: "?r \<in> set (k # ys)" by (rule foldl_closest_mem)
  show ?case
  proof (cases "closer (Fin t) y ?r")
    case True
    show ?thesis
    proof (cases "x = y")
      case True
      then show ?thesis using \<open>closer (Fin t) y ?r\<close> by simp
    next
      case False
      with snoc.prems(2) have xin: "x \<in> set (k # ys)" by auto
      have "\<bar>real ?r - t\<bar> \<le> \<bar>real x - t\<bar>" using xin by (rule foldl_closest_least)
      with True snoc.prems(3) show ?thesis by simp
    qed
  next
    case False
    show ?thesis
    proof (cases "x \<in> set (k # ys)")
      case True
      with False snoc.prems(3) srt show ?thesis using snoc.IH[of x] by simp
    next
      case nin: False
      with snoc.prems(2) have "x = y" by auto
      moreover have "?r \<le> y" using top rmem by blast
      ultimately show ?thesis using False by simp
    qed
  qed
qed

lemma object_keys_set: "set (object_keys obj) = fst ` set obj"
  by (simp add: object_keys_def)

lemma object_keys_sorted: "sorted (object_keys obj)"
  by (simp add: object_keys_def)

lemma object_keys_Nil: "object_keys obj = [] \<longleftrightarrow> obj = []"
  by (metis object_keys_set empty_set image_is_empty set_empty)

lemma reduce_closest_some:
  assumes "ks \<noteq> []"
  shows "\<exists>r. reduce_closest t ks = Some r \<and> r \<in> set ks"
proof (cases ks)
  case Nil
  with assms show ?thesis by simp
next
  case (Cons k ks')
  then show ?thesis using foldl_closest_mem[of t k ks'] by simp
qed

lemma reduce_closest_nearest:
  assumes "reduce_closest (Fin t) ks = Some r" and "sorted ks" and "x \<in> set ks"
  shows "\<bar>real r - t\<bar> \<le> \<bar>real x - t\<bar> \<and> (\<bar>real x - t\<bar> = \<bar>real r - t\<bar> \<longrightarrow> r \<le> x)"
proof (cases ks)
  case Nil
  with assms show ?thesis by simp
next
  case (Cons k ks')
  with assms(1) have r: "r = foldl (\<lambda>prev cur. if closer (Fin t) cur prev then cur else prev) k ks'"
    by simp
  from assms(3) Cons have x: "x \<in> set (k # ks')" by simp
  from assms(2) Cons have s: "sorted (k # ks')" by simp
  show ?thesis
    unfolding r using foldl_closest_least[OF x, of t] foldl_closest_tie[OF s x, of t] by blast
qed

lemma map_of_key_some: "d \<in> fst ` set obj \<Longrightarrow> \<exists>v. map_of obj d = Some v \<and> (d, v) \<in> set obj"
  by (metis map_of_eq_None_iff map_of_SomeD not_Some_eq)

lemma findClosestDimension_total:
  assumes ne: "dimensions \<noteq> []" and rows: "\<forall>row \<in> snd ` set dimensions. row \<noteq> []"
  shows "\<exists>d row w p. findClosestDimension dimensions td tw = Inr (d, w)
           \<and> reduce_closest td (object_keys dimensions) = Some d
           \<and> map_of dimensions d = Some row
           \<and> reduce_closest tw (object_keys row) = Some w
           \<and> map_of row w = Some p"
proof -
  from ne have "object_keys dimensions \<noteq> []" by (simp add: object_keys_Nil)
  then obtain d where d: "reduce_closest td (object_keys dimensions) = Some d"
    and dmem: "d \<in> set (object_keys dimensions)"
    using reduce_closest_some by blast
  from dmem obtain row where row: "map_of dimensions d = Some row" and rin: "(d, row) \<in> set dimensions"
    using map_of_key_some[of d dimensions] by (auto simp: object_keys_set)
  from rin rows have "row \<noteq> []" by force
  then have "object_keys row \<noteq> []" by (simp add: object_keys_Nil)
  then obtain w where w: "reduce_closest tw (object_keys row) = Some w"
    and wmem: "w \<in> set (object_keys row)"
    using reduce_closest_some by blast
  from wmem obtain p where p: "map_of row w = Some p"
    using map_of_key_some[of w row] by (auto simp: object_keys_set)
  show ?thesis using d row w p by (simp add: findClosestDimension_def)
qed

lemma roof_pricing_cases:
  "roof_pricing m rt \<in> {Castor_polycarbonateRoof, Castor_glassRoof, Titan_polycarbonateRoof, Titan_glassRoof_clear}"
  by (simp add: roof_pricing_def)

lemma roof_tables_nonempty:
  assumes "T \<in> {Castor_polycarbonateRoof, Castor_glassRoof, Titan_polycarbonateRoof, Titan_glassRoof_clear}"
  shows "T \<noteq> [] \<and> (\<forall>row \<in> snd ` set T. row \<noteq> [])"
  using assms
  by (auto simp: Castor_polycarbonateRoof_def Castor_glassRoof_def Titan_polycarbonateRoof_def Titan_glassRoof_clear_def)

lemma roof_lookup:
  "\<exists>d row w p. findClosestDimension (roof_pricing m rt) td tw = Inr (d, w)
           \<and> reduce_closest td (object_keys (roof_pricing m rt)) = Some d
           \<and> map_of (roof_pricing m rt) d = Some row
           \<and> reduce_closest tw (object_keys row) = Some w
           \<and> map_of row w = Some p
           \<and> calculateVerandaRoof \<lparr>rc_model = m, rc_roofType = rt, rc_depth = td, rc_width = tw\<rparr>
               = Inr (Price (real p) (applyMultiplier (real p)))"
proof -
  have "roof_pricing m rt \<noteq> [] \<and> (\<forall>row \<in> snd ` set (roof_pricing m rt). row \<noteq> [])"
    using roof_tables_nonempty[OF roof_pricing_cases] .
  then obtain d row w p where *: "findClosestDimension (roof_pricing m rt) td tw = Inr (d, w)"
           "reduce_closest td (object_keys (roof_pricing m rt)) = Some d"
           "map_of (roof_pricing m rt) d = Some row"
           "reduce_closest tw (object_keys row) = Some w"
           "map_of row w = Some p"
    using findClosestDimension_total[of "roof_pricing m rt" td tw] by blast
  then have "calculateVerandaRoof \<lparr>rc_model = m, rc_roofType = rt, rc_depth = td, rc_width = tw\<rparr>
               = Inr (Price (real p) (applyMultiplier (real p)))"
    by (simp add: calculateVerandaRoof_def)
  with * show ?thesis by blast
qed

text \<open>
  Claim C5. For every finite target depth and width the roof price lookup snaps the depth to
  the nearest key of the depth table (the lower key on an exact tie), then snaps the width to
  the nearest key of that depth's own row (again the lower key on a tie); the depth chosen
  does not depend on the width, both results are keys of the table (nothing is interpolated),
  and the wholesale price is the cell at that pair.
\<close>

theorem roof_lookup_snaps_depth_then_width:
  "\<exists>d row w p.
      d \<in> set (object_keys (roof_pricing m rt))
    \<and> (\<forall>k \<in> set (object_keys (roof_pricing m rt)).
          \<bar>real d - td\<bar> \<le> \<bar>real k - td\<bar> \<and> (\<bar>real k - td\<bar> = \<bar>real d - td\<bar> \<longrightarrow> d \<le> k))
    \<and> map_of (roof_pricing m rt) d = Some row
    \<and> w \<in> set (object_keys row)
    \<and> (\<forall>k \<in> set (object_keys row).
          \<bar>real w - tw\<bar> \<le> \<bar>real k - tw\<bar> \<and> (\<bar>real k - tw\<bar> = \<bar>real w - tw\<bar> \<longrightarrow> w \<le> k))
    \<and> map_of row w = Some p
    \<and> findClosestDimension (roof_pricing m rt) (Fin td) (Fin tw) = Inr (d, w)
    \<and> (\<forall>tw'. \<exists>w'. findClosestDimension (roof_pricing m rt) (Fin td) tw' = Inr (d, w'))
    \<and> calculateVerandaRoof \<lparr>rc_model = m, rc_roofType = rt, rc_depth = Fin td, rc_width = Fin tw\<rparr>
         = Inr (Price (real p) (applyMultiplier (real p)))"
proof -
  obtain d row w p where *: "findClosestDimension (roof_pricing m rt) (Fin td) (Fin tw) = Inr (d, w)"
           "reduce_closest (Fin td) (object_keys (roof_pricing m rt)) = Some d"
           "map_of (roof_pricing m rt) d = Some row"
           "reduce_closest (Fin tw) (object_keys row) = Some w"
           "map_of row w = Some p"
           "calculateVerandaRoof \<lparr>rc_model = m, rc_roofType = rt, rc_depth = Fin td, rc_width = Fin tw\<rparr>
               = Inr (Price (real p) (applyMultiplier (real p)))"
    using roof_lookup[of m rt "Fin td" "Fin tw"] by blast
  have dmem: "d \<in> set (object_keys (roof_pricing m rt))"
    using *(2) reduce_closest_some[of "object_keys (roof_pricing m rt)" "Fin td"]
    by (cases "object_keys (roof_pricing m rt)") auto
  have wmem: "w \<in> set (object_keys row)"
    using *(4) reduce_closest_some[of "object_keys row" "Fin tw"]
    by (cases "object_keys row") auto
  have dn: "\<forall>k \<in> set (object_keys (roof_pricing m rt)).
          \<bar>real d - td\<bar> \<le> \<bar>real k - td\<bar> \<and> (\<bar>real k - td\<bar> = \<bar>real d - td\<bar> \<longrightarrow> d \<le> k)"
    using reduce_closest_nearest[OF *(2) object_keys_sorted] by blast
  have wn: "\<forall>k \<in> set (object_keys row).
          \<bar>real w - tw\<bar> \<le> \<bar>real k - tw\<bar> \<and> (\<bar>real k - tw\<bar> = \<bar>real w - tw\<bar> \<longrightarrow> w \<le> k)"
    using reduce_closest_nearest[OF *(4) object_keys_sorted] by blast
  have ind: "\<forall>tw'. \<exists>w'. findClosestDimension (roof_pricing m rt) (Fin td) tw' = Inr (d, w')"
  proof
    fix tw'
    obtain d' w' where a: "findClosestDimension (roof_pricing m rt) (Fin td) tw' = Inr (d', w')"
      and b: "reduce_closest (Fin td) (object_keys (roof_pricing m rt)) = Some d'"
      using roof_lookup[of m rt "Fin td" tw'] by blast
    from b *(2) have "d' = d" by simp
    with a show "\<exists>w'. findClosestDimension (roof_pricing m rt) (Fin td) tw' = Inr (d, w')" by blast
  qed
  show ?thesis using dmem dn *(3) wmem wn *(5) *(1) ind *(6) by blast
qed

text \<open>The lookup at depth 2750 (a tie between 2500 and 3000) and width 4560 (a tie between
  4060 and 5060): the lower keys win, the price is the cell (2500, 4060).\<close>

theorem roof_lookup_snaps_depth_then_width_witness:
  "calculateVerandaRoof \<lparr>rc_model = ''castor'', rc_roofType = ''polycarbonate'', rc_depth = Fin 2750, rc_width = Fin 4560\<rparr>
     = Inr (Price 1050 (applyMultiplier 1050))"
proof -
  obtain d row w p where
        dmem: "d \<in> set (object_keys (roof_pricing ''castor'' ''polycarbonate''))"
    and dn: "\<forall>k \<in> set (object_keys (roof_pricing ''castor'' ''polycarbonate'')).
          \<bar>real d - 2750\<bar> \<le> \<bar>real k - 2750\<bar> \<and> (\<bar>real k - 2750\<bar> = \<bar>real d - 2750\<bar> \<longrightarrow> d \<le> k)"
    and row: "map_of (roof_pricing ''castor'' ''polycarbonate'') d = Some row"
    and wmem: "w \<in> set (object_keys row)"
    and wn: "\<forall>k \<in> set (object_keys row).
          \<bar>real w - 4560\<bar> \<le> \<bar>real k - 4560\<bar> \<and> (\<bar>real k - 4560\<bar> = \<bar>real w - 4560\<bar> \<longrightarrow> w \<le> k)"
    and p: "map_of row w = Some p"
    and res: "calculateVerandaRoof \<lparr>rc_model = ''castor'', rc_roofType = ''polycarbonate'', rc_depth = Fin 2750, rc_width = Fin 4560\<rparr>
         = Inr (Price (real p) (applyMultiplier (real p)))"
    using roof_lookup_snaps_depth_then_width[of "''castor''" "''polycarbonate''" 2750 4560] by blast
  have tbl: "roof_pricing ''castor'' ''polycarbonate'' = Castor_polycarbonateRoof"
    by (simp add: roof_pricing_def toLowerCase_def to_lower_def)
  have keys: "object_keys Castor_polycarbonateRoof = [2000, 2500, 3000, 3500, 4000, 5000, 6000]"
    by (simp add: object_keys_def Castor_polycarbonateRoof_def)
  have "d = 2500"
  proof -
    from dn have "\<bar>real d - 2750\<bar> \<le> \<bar>real (2500::nat) - 2750\<bar> \<and> (\<bar>real (2500::nat) - 2750\<bar> = \<bar>real d - 2750\<bar> \<longrightarrow> d \<le> 2500)"
      unfolding tbl keys by simp
    moreover from dmem have "d \<in> {2000, 2500, 3000, 3500, 4000, 5000, 6000}"
      unfolding tbl keys by simp
    ultimately show ?thesis by auto
  qed
  with row have r: "row = [(3060, 900), (4060, 1050), (5060, 1250), (6060, 1425), (7060, 1575), (8060, 1700), (9060, 2100), (10060, 2250)]"
    unfolding tbl by (simp add: Castor_polycarbonateRoof_def)
  have rkeys: "object_keys row = [3060, 4060, 5060, 6060, 7060, 8060, 9060, 10060]"
    unfolding r by (simp add: object_keys_def)
  have "w = 4060"
  proof -
    from wn have "\<bar>real w - 4560\<bar> \<le> \<bar>real (4060::nat) - 4560\<bar> \<and> (\<bar>real (4060::nat) - 4560\<bar> = \<bar>real w - 4560\<bar> \<longrightarrow> w \<le> 4060)"
      unfolding rkeys by simp
    moreover from wmem have "w \<in> {3060, 4060, 5060, 6060, 7060, 8060, 9060, 10060}"
      unfolding rkeys by simp
    ultimately show ?thesis by auto
  qed
  with p have "p = 1050" unfolding r by simp
  with res show ?thesis by simp
qed

lemma zijwand_keys:
  "object_keys zijwandPolycarbonate = [2000, 2500, 3000, 3500, 4000, 4500, 5000]"
  by (simp add: object_keys_def zijwandPolycarbonate_def)

lemma zijwand_prices:
  "k \<in> set (object_keys zijwandPolycarbonate) \<Longrightarrow>
   \<exists>p. map_of zijwandPolycarbonate k = Some p \<and> p \<noteq> 0"
  unfolding zijwand_keys by (auto simp: zijwandPolycarbonate_def)

lemma calculateSideWall_price:
  "\<exists>k p. calculateSideWall d = Inr (SidePrice (real p) (applyMultiplier (real p)) k)
         \<and> k \<in> set (object_keys zijwandPolycarbonate)
         \<and> map_of zijwandPolycarbonate k = Some p \<and> p \<noteq> 0"
proof -
  have "object_keys zijwandPolycarbonate \<noteq> []" by (simp add: zijwand_keys)
  then obtain k where k: "reduce_closest d (object_keys zijwandPolycarbonate) = Some k"
    and kmem: "k \<in> set (object_keys zijwandPolycarbonate)"
    using reduce_closest_some by blast
  from kmem obtain p where p: "map_of zijwandPolycarbonate k = Some p" "p \<noteq> 0"
    using zijwand_prices by blast
  have "calculateSideWall d = Inr (SidePrice (real p) (applyMultiplier (real p)) k)"
    using k p by (simp add: calculateSideWall_def)
  with p kmem show ?thesis by blast
qed

text \<open>
  Claim C10. \<^verbatim>\<open>calculateSideWall\<close> is total and its error branch is unreachable: for
  every JavaScript number as depth (finite, infinite or NaN) the reduce selects a key of the
  table, whose price is defined and not zero, so the result is a wholesale/retail price and
  never \<^verbatim>\<open>{ error: 'Invalid depth' }\<close> (nor a throw).
\<close>

theorem calculateSideWall_never_errors:
  "\<exists>k p. calculateSideWall d = Inr (SidePrice (real p) (applyMultiplier (real p)) k)
         \<and> map_of zijwandPolycarbonate k = Some p \<and> p \<noteq> 0
         \<and> calculateSideWall d \<noteq> Inr (Error ''Invalid depth'')
         \<and> calculateSideWall d \<noteq> Inl TypeError"
proof -
  obtain k p where "calculateSideWall d = Inr (SidePrice (real p) (applyMultiplier (real p)) k)"
    and "map_of zijwandPolycarbonate k = Some p" and "p \<noteq> 0"
    using calculateSideWall_price[of d] by blast
  then show ?thesis by auto
qed

lemma side_wall_NaN: "calculateSideWall NaN = Inr (SidePrice 260 (applyMultiplier 260) 2000)"
  unfolding calculateSideWall_def zijwand_keys by (simp add: zijwandPolycarbonate_def)


lemma led_sets_truthy:
  "map_of Titan_ledLighting_sets n = Some p \<Longrightarrow> p \<noteq> 0"
  by (auto simp: Titan_ledLighting_sets_def split: if_splits)

lemma led_sets_not_one:
  "map_of Titan_ledLighting_sets n = Some p \<Longrightarrow> n \<noteq> 1"
  by (auto simp: Titan_ledLighting_sets_def split: if_splits)

lemma led_single: 
  "calculateLEDLighting (Fin 1) = Price 12 (applyMultiplier 12)"
  by (simp add: calculateLEDLighting_def Titan_ledLighting_single_def)

lemma led_set:
  assumes "map_of Titan_ledLighting_sets n = Some p"
  shows "calculateLEDLighting (Fin (real n)) = Price (real p) (applyMultiplier (real p))"
  using assms led_sets_truthy[OF assms] led_sets_not_one[OF assms]
  by (simp add: calculateLEDLighting_def)

lemma led_miss:
  assumes "c \<noteq> Fin 1" "lookup_number Titan_ledLighting_sets c = None"
  shows "calculateLEDLighting c = Error ''Invalid light count''"
  using assms by (simp add: calculateLEDLighting_def)

lemma complete_total:
  "\<exists>r l rt. calculateCompleteVeranda config =
      Inr \<lparr>roof = r, enclosures_left = l, enclosures_right = rt,
           lighting = (if js_positive (vc_lighting config) then Some (calculateLEDLighting (vc_lighting config)) else None),
           total_wholesale = fst (add_component (if js_positive (vc_lighting config) then Some (calculateLEDLighting (vc_lighting config)) else None) (add_component rt (add_component l (wholesale r, retail r)))),
           total_retail = snd (add_component (if js_positive (vc_lighting config) then Some (calculateLEDLighting (vc_lighting config)) else None) (add_component rt (add_component l (wholesale r, retail r))))\<rparr>
    \<and> calculateVerandaRoof \<lparr>rc_model = vc_model config, rc_roofType = vc_roofType config,
              rc_depth = vc_depth config, rc_width = vc_width config\<rparr> = Inr r
    \<and> (if vc_enclosures_left config then map_sum id Some (calculateSideWall (vc_depth config)) else Inr None) = Inr l
    \<and> (if vc_enclosures_right config then map_sum id Some (calculateSideWall (vc_depth config)) else Inr None) = Inr rt"
proof -
  obtain p where r: "calculateVerandaRoof \<lparr>rc_model = vc_model config, rc_roofType = vc_roofType config,
              rc_depth = vc_depth config, rc_width = vc_width config\<rparr> = Inr (Price (real p) (applyMultiplier (real p)))"
    using roof_lookup[of "vc_model config" "vc_roofType config" "vc_depth config" "vc_width config"] by blast
  obtain k q where s: "calculateSideWall (vc_depth config) = Inr (SidePrice (real q) (applyMultiplier (real q)) k)"
    using calculateSideWall_price[of "vc_depth config"] by blast
  show ?thesis
    by (simp add: calculateCompleteVeranda_def r s Let_def)
qed


lemma add_component_counted:
  "add_component c (w, r) = (w + counted_wholesale c, r + counted_retail c)"
  by (cases "(c, (w, r))" rule: add_component.cases) auto

text \<open>
  Claim C6. The lighting component: a light count of exactly 1 gets the single-unit wholesale
  price (12, which is no price of the sets table); a count that is a key of the sets table gets
  that table price; any other positive count gets the \<^verbatim>\<open>{ error }\<close> marker as a value.
  The complete calculation always returns a breakdown, and its totals are the roof plus the
  enclosures and the lighting that are present and not errors.
\<close>

theorem lighting_price_and_error_skipping:
  "calculateLEDLighting (Fin 1) = Price (real Titan_ledLighting_single) (applyMultiplier (real Titan_ledLighting_single))
   \<and> Titan_ledLighting_single = 12 \<and> Titan_ledLighting_single \<notin> snd ` set Titan_ledLighting_sets
   \<and> (map_of Titan_ledLighting_sets n = Some p \<longrightarrow>
          calculateLEDLighting (Fin (real n)) = Price (real p) (applyMultiplier (real p)))
   \<and> (js_positive c \<and> c \<noteq> Fin 1 \<and> lookup_number Titan_ledLighting_sets c = None \<longrightarrow>
          calculateLEDLighting c = Error ''Invalid light count'')
   \<and> (\<exists>res. calculateCompleteVeranda config = Inr res
          \<and> lighting res = (if js_positive (vc_lighting config)
                              then Some (calculateLEDLighting (vc_lighting config)) else None)
          \<and> total_wholesale res = wholesale (roof res) + counted_wholesale (enclosures_left res)
                + counted_wholesale (enclosures_right res) + counted_wholesale (lighting res)
          \<and> total_retail res = retail (roof res) + counted_retail (enclosures_left res)
                + counted_retail (enclosures_right res) + counted_retail (lighting res))"
proof -
  have a: "calculateLEDLighting (Fin 1) = Price (real Titan_ledLighting_single) (applyMultiplier (real Titan_ledLighting_single))"
    by (simp add: calculateLEDLighting_def)
  have b: "Titan_ledLighting_single = 12 \<and> Titan_ledLighting_single \<notin> snd ` set Titan_ledLighting_sets"
    by (simp add: Titan_ledLighting_single_def Titan_ledLighting_sets_def)
  have c: "map_of Titan_ledLighting_sets n = Some p \<longrightarrow>
          calculateLEDLighting (Fin (real n)) = Price (real p) (applyMultiplier (real p))"
    using led_set by blast
  have d: "js_positive c \<and> c \<noteq> Fin 1 \<and> lookup_number Titan_ledLighting_sets c = None \<longrightarrow>
          calculateLEDLighting c = Error ''Invalid light count''"
    using led_miss by blast
  obtain r l rt where res: "calculateCompleteVeranda config =
      Inr \<lparr>roof = r, enclosures_left = l, enclosures_right = rt,
           lighting = (if js_positive (vc_lighting config) then Some (calculateLEDLighting (vc_lighting config)) else None),
           total_wholesale = fst (add_component (if js_positive (vc_lighting config) then Some (calculateLEDLighting (vc_lighting config)) else None) (add_component rt (add_component l (wholesale r, retail r)))),
           total_retail = snd (add_component (if js_positive (vc_lighting config) then Some (calculateLEDLighting (vc_lighting config)) else None) (add_component rt (add_component l (wholesale r, retail r))))\<rparr>"
    using complete_total[of config] by blast
  have e: "\<exists>res. calculateCompleteVeranda config = Inr res
          \<and> lighting res = (if js_positive (vc_lighting config)
                              then Some (calculateLEDLighting (vc_lighting config)) else None)
          \<and> total_wholesale res = wholesale (roof res) + counted_wholesale (enclosures_left res)
                + counted_wholesale (enclosures_right res) + counted_wholesale (lighting res)
          \<and> total_retail res = retail (roof res) + counted_retail (enclosures_left res)
                + counted_retail (enclosures_right res) + counted_retail (lighting res)"
    unfolding res by (simp add: add_component_counted)
  from a b c d e show ?thesis by blast
qed


lemma roof_castor_keys: "object_keys Castor_polycarbonateRoof = [2000, 2500, 3000, 3500, 4000, 5000, 6000]"
  by (simp add: object_keys_def Castor_polycarbonateRoof_def)

lemma roof_3000_4000:
  "calculateVerandaRoof \<lparr>rc_model = ''castor'', rc_roofType = ''polycarbonate'', rc_depth = Fin 3000, rc_width = Fin 4000\<rparr>
    = Inr (Price 1225 (applyMultiplier 1225))"
proof -
  have tbl: "roof_pricing ''castor'' ''polycarbonate'' = Castor_polycarbonateRoof"
    by (simp add: roof_pricing_def toLowerCase_def to_lower_def)
  have d: "reduce_closest (Fin 3000) (object_keys Castor_polycarbonateRoof) = Some 3000"
    unfolding roof_castor_keys by simp
  have row: "map_of Castor_polycarbonateRoof 3000 = Some [(3060, 1050), (4060, 1225), (5060, 1400), (6060, 1525), (7060, 1700), (8060, 1825), (9060, 2350), (10060, 2600)]"
    by (simp add: Castor_polycarbonateRoof_def)
  have w: "reduce_closest (Fin 4000) (object_keys [(3060, 1050), (4060, 1225), (5060, 1400), (6060, 1525), (7060, 1700), (8060, 1825), (9060, 2350), (10060::nat, 2600::nat)]) = Some 4060"
    by (simp add: object_keys_def)
  show ?thesis
    by (simp add: calculateVerandaRoof_def findClosestDimension_def tbl d row w)
qed

lemma side_3000: "calculateSideWall (Fin 3000) = Inr (SidePrice 335 (applyMultiplier 335) 3000)"
  unfolding calculateSideWall_def zijwand_keys by (simp add: zijwandPolycarbonate_def)

text \<open>Ten lights hit the table (200); seven lights are an error marker, and the total of a
  3000 by 4000 castor roof with a left wall is then the roof plus the wall.\<close>

theorem lighting_price_and_error_skipping_witness:
  "map_of Titan_ledLighting_sets 10 = Some 200
   \<and> calculateLEDLighting (Fin 10) = Price 200 (applyMultiplier 200)
   \<and> js_positive (Fin 7) \<and> Fin 7 \<noteq> Fin 1 \<and> lookup_number Titan_ledLighting_sets (Fin 7) = None
   \<and> calculateLEDLighting (Fin 7) = Error ''Invalid light count''
   \<and> (\<exists>res. calculateCompleteVeranda
              \<lparr>vc_model = ''castor'', vc_depth = Fin 3000, vc_width = Fin 4000,
               vc_roofType = ''polycarbonate'', vc_enclosures_left = True,
               vc_enclosures_right = False, vc_lighting = Fin 7\<rparr> = Inr res
          \<and> lighting res = Some (Error ''Invalid light count'')
          \<and> total_wholesale res = 1225 + 335
          \<and> total_retail res = 2707.25 + 740.35)"
proof -
  let ?cfg = "\<lparr>vc_model = ''castor'', vc_depth = Fin 3000, vc_width = Fin 4000,
               vc_roofType = ''polycarbonate'', vc_enclosures_left = True,
               vc_enclosures_right = False, vc_lighting = Fin 7\<rparr>"
  have h1: "map_of Titan_ledLighting_sets 10 = Some 200"
    by (simp add: Titan_ledLighting_sets_def)
  have h2: "js_positive (Fin 7) \<and> Fin 7 \<noteq> Fin 1 \<and> lookup_number Titan_ledLighting_sets (Fin 7) = None"
    by (simp add: Titan_ledLighting_sets_def)
  note T = lighting_price_and_error_skipping[of 10 200 "Fin 7" ?cfg]
  from T h1 have c1: "calculateLEDLighting (Fin 10) = Price 200 (applyMultiplier 200)" by simp
  from T h2 have c2: "calculateLEDLighting (Fin 7) = Error ''Invalid light count''" by blast
  from T obtain res where res: "calculateCompleteVeranda ?cfg = Inr res"
      and li: "lighting res = (if js_positive (vc_lighting ?cfg)
                              then Some (calculateLEDLighting (vc_lighting ?cfg)) else None)"
      and tw: "total_wholesale res = wholesale (roof res) + counted_wholesale (enclosures_left res)
                + counted_wholesale (enclosures_right res) + counted_wholesale (lighting res)"
      and tr: "total_retail res = retail (roof res) + counted_retail (enclosures_left res)
                + counted_retail (enclosures_right res) + counted_retail (lighting res)"
    by blast
  have ev: "roof res = Price 1225 (applyMultiplier 1225)
          \<and> enclosures_left res = Some (SidePrice 335 (applyMultiplier 335) 3000)
          \<and> enclosures_right res = None"
    using res by (auto simp: calculateCompleteVeranda_def roof_3000_4000 side_3000 Let_def)
  have li': "lighting res = Some (Error ''Invalid light count'')" using li c2 by simp
  have m1: "applyMultiplier 1225 = 2707.25" by (simp add: applyMultiplier_def math_round_def PRICE_MULTIPLIER_def)
  have m2: "applyMultiplier 335 = 740.35" by (simp add: applyMultiplier_def math_round_def PRICE_MULTIPLIER_def)
  have "total_wholesale res = 1225 + 335" using tw ev li' by simp
  moreover have "total_retail res = 2707.25 + 740.35" using tr ev li' m1 m2 by simp
  ultimately show ?thesis using h1 h2 c1 c2 res li' by blast
qed

section \<open>Properties of the host price breakdown\<close>

lemma initial_state_fields:
  "enclosureEnabled initial_state" "\<not> lightsOn initial_state"
  "depth initial_state * 1000 = 4500" "width initial_state * 1000 = 5000"
  "sideEnclosureTypes initial_state =
     \<lparr>front_side = EntryObj (Some ''glass'') (Some ''triple''),
      left_side = EntryObj (Some ''glass'') (Some ''triple''),
      right_side = EntryObj (Some ''glass'') (Some ''triple'')\<rparr>"
  by (simp_all add: initial_state_def)

lemma side_4500: "calculateSideWall (Fin 4500) = Inr (SidePrice 465 (applyMultiplier 465) 4500)"
  unfolding calculateSideWall_def zijwand_keys by (simp add: zijwandPolycarbonate_def)

lemma pricing_sides:
  assumes "enclosureEnabled st"
  shows "\<exists>res k p. pricing st = Inr res
           \<and> calculateSideWall (Fin (depth st * 1000))
                = Inr (SidePrice (real p) (applyMultiplier (real p)) k)
           \<and> enclosures_left res
                = (if left_side (sideEnclosureTypes st) = EntryStr ''none'' then None
                   else Some (SidePrice (real p) (applyMultiplier (real p)) k))
           \<and> enclosures_right res
                = (if right_side (sideEnclosureTypes st) = EntryStr ''none'' then None
                   else Some (SidePrice (real p) (applyMultiplier (real p)) k))
           \<and> lighting res = (if lightsOn st then Some (calculateLEDLighting (Fin 10)) else None)
           \<and> total_wholesale res
                = wholesale (roof res) + counted_wholesale (enclosures_left res)
                  + counted_wholesale (enclosures_right res) + counted_wholesale (lighting res)
           \<and> total_retail res
                = retail (roof res) + counted_retail (enclosures_left res)
                  + counted_retail (enclosures_right res) + counted_retail (lighting res)"
proof -
  let ?L = "not_none (left_side (sideEnclosureTypes st))"
  let ?R = "not_none (right_side (sideEnclosureTypes st))"
  let ?cfg = "\<lparr>vc_model = ''castor'', vc_depth = Fin (depth st * 1000),
        vc_width = Fin (width st * 1000), vc_roofType = ''polycarbonate'',
        vc_enclosures_left = ?L, vc_enclosures_right = ?R,
        vc_lighting = Fin (if lightsOn st then 10 else 0)\<rparr>"
  have pr: "pricing st = calculateCompleteVeranda ?cfg"
    using assms by (simp add: pricing_def)
  have nn: "not_none e = (e \<noteq> EntryStr ''none'')" for e
    by (cases e) simp_all
  obtain k p where s: "calculateSideWall (Fin (depth st * 1000))
                = Inr (SidePrice (real p) (applyMultiplier (real p)) k)"
    using calculateSideWall_price by blast
  obtain r l rt where res: "calculateCompleteVeranda ?cfg =
      Inr \<lparr>roof = r, enclosures_left = l, enclosures_right = rt,
           lighting = (if js_positive (vc_lighting ?cfg) then Some (calculateLEDLighting (vc_lighting ?cfg)) else None),
           total_wholesale = fst (add_component (if js_positive (vc_lighting ?cfg) then Some (calculateLEDLighting (vc_lighting ?cfg)) else None) (add_component rt (add_component l (wholesale r, retail r)))),
           total_retail = snd (add_component (if js_positive (vc_lighting ?cfg) then Some (calculateLEDLighting (vc_lighting ?cfg)) else None) (add_component rt (add_component l (wholesale r, retail r))))\<rparr>"
     and l: "(if vc_enclosures_left ?cfg then map_sum id Some (calculateSideWall (vc_depth ?cfg)) else Inr None) = Inr l"
     and rt: "(if vc_enclosures_right ?cfg then map_sum id Some (calculateSideWall (vc_depth ?cfg)) else Inr None) = Inr rt"
    using complete_total[of ?cfg] by blast
  from l s have l': "l = (if left_side (sideEnclosureTypes st) = EntryStr ''none'' then None
                   else Some (SidePrice (real p) (applyMultiplier (real p)) k))"
    by (simp add: nn split: if_splits)
  from rt s have rt': "rt = (if right_side (sideEnclosureTypes st) = EntryStr ''none'' then None
                   else Some (SidePrice (real p) (applyMultiplier (real p)) k))"
    by (simp add: nn split: if_splits)
  have tot: "add_component c (add_component b (add_component a (w, x)))
      = (w + counted_wholesale a + counted_wholesale b + counted_wholesale c,
         x + counted_retail a + counted_retail b + counted_retail c)" for a b c w x
    by (simp add: add_component_counted)
  have li: "(if js_positive (vc_lighting ?cfg) then Some (calculateLEDLighting (vc_lighting ?cfg)) else None)
      = (if lightsOn st then Some (calculateLEDLighting (Fin 10)) else None)"
    by simp
  let ?R = "\<lparr>roof = r, enclosures_left = l, enclosures_right = rt,
           lighting = (if lightsOn st then Some (calculateLEDLighting (Fin 10)) else None),
           total_wholesale = wholesale r + counted_wholesale l + counted_wholesale rt
             + counted_wholesale (if lightsOn st then Some (calculateLEDLighting (Fin 10)) else None),
           total_retail = retail r + counted_retail l + counted_retail rt
             + counted_retail (if lightsOn st then Some (calculateLEDLighting (Fin 10)) else None)\<rparr>"
  have "pricing st = Inr ?R"
    unfolding pr res li tot by simp
  then show ?thesis
    by (intro exI[of _ ?R] exI[of _ k] exI[of _ p]) (simp add: s l'[symmetric] rt'[symmetric])
qed

text \<open>
  Claim C9, as stated, at the state left by \<^verbatim>\<open>handleApplyAIConfig\<close> for
  \<^verbatim>\<open>{ selectedSide: 'left', enclosureType: 'none' }\<close>: the left entry is the string
  \<^verbatim>\<open>'none'\<close>, and with \<^verbatim>\<open>enclosureEnabled\<close> true the left side wall is not priced, while the
  right one is.
\<close>

theorem string_none_entry_suppresses_side_wall:
  "enclosureEnabled
     (initial_state\<lparr>sideEnclosureTypes :=
        apply_side_enclosure ''left'' ''none'' (sideEnclosureTypes initial_state)\<rparr>)
   \<and> map_sum id enclosures_left
        (pricing (initial_state\<lparr>sideEnclosureTypes :=
           apply_side_enclosure ''left'' ''none'' (sideEnclosureTypes initial_state)\<rparr>))
       = Inr None
   \<and> map_sum id enclosures_right
        (pricing (initial_state\<lparr>sideEnclosureTypes :=
           apply_side_enclosure ''left'' ''none'' (sideEnclosureTypes initial_state)\<rparr>))
       = Inr (Some (SidePrice 465 (applyMultiplier 465) 4500))"
proof -
  define st where "st = initial_state\<lparr>sideEnclosureTypes :=
        apply_side_enclosure ''left'' ''none'' (sideEnclosureTypes initial_state)\<rparr>"
  have en: "enclosureEnabled st" by (simp add: st_def initial_state_fields)
  have dep: "depth st * 1000 = 4500" by (simp add: st_def initial_state_fields)
  have l: "left_side (sideEnclosureTypes st) = EntryStr ''none''"
    by (simp add: st_def apply_side_enclosure_def)
  have r: "right_side (sideEnclosureTypes st) \<noteq> EntryStr ''none''"
    by (simp add: st_def apply_side_enclosure_def initial_state_fields)
  obtain res k p where res: "pricing st = Inr res"
    and s: "calculateSideWall (Fin (depth st * 1000))
                = Inr (SidePrice (real p) (applyMultiplier (real p)) k)"
    and el: "enclosures_left res
                = (if left_side (sideEnclosureTypes st) = EntryStr ''none'' then None
                   else Some (SidePrice (real p) (applyMultiplier (real p)) k))"
    and er: "enclosures_right res
                = (if right_side (sideEnclosureTypes st) = EntryStr ''none'' then None
                   else Some (SidePrice (real p) (applyMultiplier (real p)) k))"
    using pricing_sides[OF en] by (elim exE conjE) (rule that; assumption)
  have "(Inr (SidePrice (real p) (applyMultiplier (real p)) k) :: js_error + component)
          = Inr (SidePrice 465 (applyMultiplier 465) 4500)"
    using s[unfolded dep] side_4500 by (rule trans[OF sym])
  then have eq: "SidePrice (real p) (applyMultiplier (real p)) k
          = SidePrice 465 (applyMultiplier 465) 4500"
    by (simp only: sum.inject)
  have er': "enclosures_right res = Some (SidePrice 465 (applyMultiplier 465) 4500)"
    using er r unfolding eq by (simp only: if_False)
  have el': "enclosures_left res = None" using el l by (simp only: refl if_True)
  have "enclosureEnabled st
      \<and> map_sum id enclosures_left (pricing st) = Inr None
      \<and> map_sum id enclosures_right (pricing st)
          = Inr (Some (SidePrice 465 (applyMultiplier 465) 4500))"
    unfolding res using en el' er' by simp
  then show ?thesis unfolding st_def .
qed

text \<open>
  Claim C9, amended. In the host's price breakdown, with \<^verbatim>\<open>enclosureEnabled\<close> true, a side
  wall is priced and counted in the totals unless that side's entry of
  \<^verbatim>\<open>sideEnclosureTypes\<close> is the bare string \<^verbatim>\<open>'none'\<close>. An entry that is an object
  \<^verbatim>\<open>{ material, glassType }\<close>, the state shape, never suppresses the price, whatever its
  material is (also \<^verbatim>\<open>open\<close>); neither does any other string.
\<close>

theorem enabled_enclosure_prices_sides:
  assumes "enclosureEnabled st"
  shows "\<exists>res k p. pricing st = Inr res
           \<and> calculateSideWall (Fin (depth st * 1000))
                = Inr (SidePrice (real p) (applyMultiplier (real p)) k)
           \<and> enclosures_left res
                = (if left_side (sideEnclosureTypes st) = EntryStr ''none'' then None
                   else Some (SidePrice (real p) (applyMultiplier (real p)) k))
           \<and> enclosures_right res
                = (if right_side (sideEnclosureTypes st) = EntryStr ''none'' then None
                   else Some (SidePrice (real p) (applyMultiplier (real p)) k))
           \<and> lighting res = (if lightsOn st then Some (calculateLEDLighting (Fin 10)) else None)
           \<and> total_wholesale res
                = wholesale (roof res) + counted_wholesale (enclosures_left res)
                  + counted_wholesale (enclosures_right res) + counted_wholesale (lighting res)
           \<and> total_retail res
                = retail (roof res) + counted_retail (enclosures_left res)
                  + counted_retail (enclosures_right res) + counted_retail (lighting res)"
  using assms by (rule pricing_sides)

text \<open>The initial state with both side walls set to the material \<^verbatim>\<open>open\<close>: both are still
  priced, at the 4500 bucket.\<close>

theorem enabled_enclosure_prices_sides_witness:
  "enclosureEnabled
     (initial_state\<lparr>sideEnclosureTypes :=
        \<lparr>front_side = EntryObj (Some ''glass'') (Some ''triple''),
         left_side = EntryObj (Some ''open'') (Some ''triple''),
         right_side = EntryObj (Some ''open'') (Some ''triple'')\<rparr>\<rparr>)
   \<and> map_sum id enclosures_left
        (pricing (initial_state\<lparr>sideEnclosureTypes :=
           \<lparr>front_side = EntryObj (Some ''glass'') (Some ''triple''),
            left_side = EntryObj (Some ''open'') (Some ''triple''),
            right_side = EntryObj (Some ''open'') (Some ''triple'')\<rparr>\<rparr>))
       = Inr (Some (SidePrice 465 (applyMultiplier 465) 4500))
   \<and> map_sum id enclosures_right
        (pricing (initial_state\<lparr>sideEnclosureTypes :=
           \<lparr>front_side = EntryObj (Some ''glass'') (Some ''triple''),
            left_side = EntryObj (Some ''open'') (Some ''triple''),
            right_side = EntryObj (Some ''open'') (Some ''triple'')\<rparr>\<rparr>))
       = Inr (Some (SidePrice 465 (applyMultiplier 465) 4500))"
proof -
  define st where "st = initial_state\<lparr>sideEnclosureTypes :=
        \<lparr>front_side = EntryObj (Some ''glass'') (Some ''triple''),
         left_side = EntryObj (Some ''open'') (Some ''triple''),
         right_side = EntryObj (Some ''open'') (Some ''triple'')\<rparr>\<rparr>"
  have en: "enclosureEnabled st" by (simp add: st_def initial_state_fields)
  have dep: "depth st * 1000 = 4500" by (simp add: st_def initial_state_fields)
  have l: "left_side (sideEnclosureTypes st) \<noteq> EntryStr ''none''" by (simp add: st_def)
  have r: "right_side (sideEnclosureTypes st) \<noteq> EntryStr ''none''" by (simp add: st_def)
  obtain res k p where res: "pricing st = Inr res"
    and s: "calculateSideWall (Fin (depth st * 1000))
                = Inr (SidePrice (real p) (applyMultiplier (real p)) k)"
    and el: "enclosures_left res
                = (if left_side (sideEnclosureTypes st) = EntryStr ''none'' then None
                   else Some (SidePrice (real p) (applyMultiplier (real p)) k))"
    and er: "enclosures_right res
                = (if right_side (sideEnclosureTypes st) = EntryStr ''none'' then None
                   else Some (SidePrice (real p) (applyMultiplier (real p)) k))"
    using enabled_enclosure_prices_sides[OF en] by (elim exE conjE) (rule that; assumption)
  have "(Inr (SidePrice (real p) (applyMultiplier (real p)) k) :: js_error + component)
          = Inr (SidePrice 465 (applyMultiplier 465) 4500)"
    using s[unfolded dep] side_4500 by (rule trans[OF sym])
  then have eq: "SidePrice (real p) (applyMultiplier (real p)) k
          = SidePrice 465 (applyMultiplier 465) 4500"
    by (simp only: sum.inject)
  have er': "enclosures_right res = Some (SidePrice 465 (applyMultiplier 465) 4500)"
    using er r unfolding eq by (simp only: if_False)
  have el': "enclosures_left res = Some (SidePrice 465 (applyMultiplier 465) 4500)"
    using el l unfolding eq by (simp only: if_False)
  have "enclosureEnabled st
      \<and> map_sum id enclosures_left (pricing st)
          = Inr (Some (SidePrice 465 (applyMultiplier 465) 4500))
      \<and> map_sum id enclosures_right (pricing st)
          = Inr (Some (SidePrice 465 (applyMultiplier 465) 4500))"
    unfolding res using en el' er' by simp
  then show ?thesis unfolding st_def .
qed

section \<open>The scene pass\<close>

subsection \<open>Names, mesh flags and visibility\<close>

lemma to_lower_chars:
  "to_lower CHR ''a'' = CHR ''a''"
  "to_lower CHR ''b'' = CHR ''b''"
  "to_lower CHR ''c'' = CHR ''c''"
  "to_lower CHR ''d'' = CHR ''d''"
  "to_lower CHR ''e'' = CHR ''e''"
  "to_lower CHR ''f'' = CHR ''f''"
  "to_lower CHR ''g'' = CHR ''g''"
  "to_lower CHR ''h'' = CHR ''h''"
  "to_lower CHR ''i'' = CHR ''i''"
  "to_lower CHR ''j'' = CHR ''j''"
  "to_lower CHR ''k'' = CHR ''k''"
  "to_lower CHR ''l'' = CHR ''l''"
  "to_lower CHR ''m'' = CHR ''m''"
  "to_lower CHR ''n'' = CHR ''n''"
  "to_lower CHR ''o'' = CHR ''o''"
  "to_lower CHR ''p'' = CHR ''p''"
  "to_lower CHR ''q'' = CHR ''q''"
  "to_lower CHR ''r'' = CHR ''r''"
  "to_lower CHR ''s'' = CHR ''s''"
  "to_lower CHR ''t'' = CHR ''t''"
  "to_lower CHR ''u'' = CHR ''u''"
  "to_lower CHR ''v'' = CHR ''v''"
  "to_lower CHR ''w'' = CHR ''w''"
  "to_lower CHR ''x'' = CHR ''x''"
  "to_lower CHR ''y'' = CHR ''y''"
  "to_lower CHR ''z'' = CHR ''z''"
  "to_lower CHR ''0'' = CHR ''0''"
  "to_lower CHR ''1'' = CHR ''1''"
  "to_lower CHR ''2'' = CHR ''2''"
  "to_lower CHR ''3'' = CHR ''3''"
  "to_lower CHR ''4'' = CHR ''4''"
  "to_lower CHR ''5'' = CHR ''5''"
  "to_lower CHR ''6'' = CHR ''6''"
  "to_lower CHR ''7'' = CHR ''7''"
  "to_lower CHR ''8'' = CHR ''8''"
  "to_lower CHR ''9'' = CHR ''9''"
  "to_lower CHR '' '' = CHR '' ''"
  "to_lower CHR ''.'' = CHR ''.''"
  "to_lower CHR ''_'' = CHR ''_''"
  "to_lower CHR ''-'' = CHR ''-''"
  "to_lower CHR ''#'' = CHR ''#''"
  "to_lower CHR ''A'' = CHR ''a''"
  "to_lower CHR ''B'' = CHR ''b''"
  "to_lower CHR ''C'' = CHR ''c''"
  "to_lower CHR ''D'' = CHR ''d''"
  "to_lower CHR ''E'' = CHR ''e''"
  "to_lower CHR ''F'' = CHR ''f''"
  "to_lower CHR ''G'' = CHR ''g''"
  "to_lower CHR ''H'' = CHR ''h''"
  "to_lower CHR ''I'' = CHR ''i''"
  "to_lower CHR ''J'' = CHR ''j''"
  "to_lower CHR ''K'' = CHR ''k''"
  "to_lower CHR ''L'' = CHR ''l''"
  "to_lower CHR ''M'' = CHR ''m''"
  "to_lower CHR ''N'' = CHR ''n''"
  "to_lower CHR ''O'' = CHR ''o''"
  "to_lower CHR ''P'' = CHR ''p''"
  "to_lower CHR ''Q'' = CHR ''q''"
  "to_lower CHR ''R'' = CHR ''r''"
  "to_lower CHR ''S'' = CHR ''s''"
  "to_lower CHR ''T'' = CHR ''t''"
  "to_lower CHR ''U'' = CHR ''u''"
  "to_lower CHR ''V'' = CHR ''v''"
  "to_lower CHR ''W'' = CHR ''w''"
  "to_lower CHR ''X'' = CHR ''x''"
  "to_lower CHR ''Y'' = CHR ''y''"
  "to_lower CHR ''Z'' = CHR ''z''"
  by (simp_all add: to_lower_def)

lemma side_enclosure_frame:
  "name (side_enclosure a b c t n) = name n \<and> isMesh (side_enclosure a b c t n) = isMesh n"
  by (simp add: side_enclosure_def Let_def)

lemma show_in_target_frame:
  "name (show_in_target cfg tc n) = name n \<and> isMesh (show_in_target cfg tc n) = isMesh n"
  by (simp add: show_in_target_def Let_def)

lemma capture_original_frame:
  "name (capture_original n) = name n \<and> isMesh (capture_original n) = isMesh n
   \<and> visible (capture_original n) = visible n"
  by (simp add: capture_original_def Let_def)

lemma section_A_frame:
  "name (section_A cfg n) = name n \<and> isMesh (section_A cfg n) = isMesh n"
  by (simp add: section_A_def Let_def)

lemma section_B_frame:
  "name (section_B cfg n) = name n \<and> isMesh (section_B cfg n) = isMesh n"
  by (simp add: section_B_def Let_def)

lemma section_C_frame:
  "name (section_C cfg n) = name n \<and> isMesh (section_C cfg n) = isMesh n"
  by (simp add: section_C_def Let_def)

lemma section_D_frame:
  "name (section_D cfg n) = name n \<and> isMesh (section_D cfg n) = isMesh n"
  by (simp add: section_D_def Let_def)

lemma section_E_frame:
  "name (section_E cfg n) = name n \<and> isMesh (section_E cfg n) = isMesh n"
  by (simp add: section_E_def Let_def)

lemma section_F_frame:
  "name (section_F cfg n) = name n \<and> isMesh (section_F cfg n) = isMesh n"
  by (simp add: section_F_def Let_def side_enclosure_frame)

lemma section_G_frame:
  "name (section_G cfg n) = name n \<and> isMesh (section_G cfg n) = isMesh n"
  by (simp add: section_G_def Let_def side_enclosure_frame)

lemma section_H_frame:
  "name (section_H cfg n) = name n \<and> isMesh (section_H cfg n) = isMesh n"
  by (simp add: section_H_def Let_def show_in_target_frame split: option.splits)

lemma section_I_frame:
  "name (section_I cfg n) = name n \<and> isMesh (section_I cfg n) = isMesh n"
  by (simp add: section_I_def Let_def)

lemma section_J_frame:
  "name (section_J cfg n) = name n \<and> isMesh (section_J cfg n) = isMesh n"
  by (simp add: section_J_def Let_def capture_original_frame)

lemma section_K_frame:
  "name (section_K cfg n) = name n \<and> isMesh (section_K cfg n) = isMesh n"
  by (simp add: section_K_def Let_def show_light_def)

lemma section_L_frame:
  "name (section_L cfg n) = name n \<and> isMesh (section_L cfg n) = isMesh n"
  by (simp add: section_L_def Let_def)

lemma name_functions:
  assumes "name m = name m'"
  shows "baseName m = baseName m'" "isAnyGlassObject m = isAnyGlassObject m'"
    "targetEntry cfg m = targetEntry cfg m'" "isLeftObject m = isLeftObject m'"
    "isRightObject m = isRightObject m'" "isFrontObject m = isFrontObject m'"
  using assms
  by (simp_all add: baseName_def isAnyGlassObject_def targetEntry_def isLeftObject_def
        isRightObject_def isFrontObject_def)

lemmas vis_if = if_distrib[of visible]

lemma side_enclosure_vis:
  "name m = name m' \<Longrightarrow> visible m = visible m' \<Longrightarrow>
   visible (side_enclosure a b c t m) = visible (side_enclosure a b c t m')"
  by (simp add: side_enclosure_def Let_def vis_if split del: if_split cong: if_cong)

lemma show_in_target_vis:
  "name m = name m' \<Longrightarrow> visible m = visible m' \<Longrightarrow>
   visible (show_in_target cfg tc m) = visible (show_in_target cfg tc m')"
  by (simp add: show_in_target_def Let_def name_functions(1)[of m m'] vis_if split del: if_split cong: if_cong)

lemma section_D_vis:
  "name m = name m' \<Longrightarrow> visible (section_D cfg m) = visible (section_D cfg m')"
  by (simp add: section_D_def Let_def vis_if split del: if_split cong: if_cong)

lemma section_A_vis:
  "name m = name m' \<Longrightarrow> visible m = visible m' \<Longrightarrow>
   visible (section_A cfg m) = visible (section_A cfg m')"
  by (simp add: section_A_def Let_def vis_if split del: if_split cong: if_cong)

lemma section_B_vis:
  "name m = name m' \<Longrightarrow> visible m = visible m' \<Longrightarrow>
   visible (section_B cfg m) = visible (section_B cfg m')"
  by (simp add: section_B_def Let_def vis_if split del: if_split cong: if_cong)

lemma section_C_vis:
  "name m = name m' \<Longrightarrow> visible m = visible m' \<Longrightarrow>
   visible (section_C cfg m) = visible (section_C cfg m')"
  by (simp add: section_C_def Let_def vis_if split del: if_split cong: if_cong)

lemma section_E_vis:
  "name m = name m' \<Longrightarrow> visible m = visible m' \<Longrightarrow>
   visible (section_E cfg m) = visible (section_E cfg m')"
  by (simp add: section_E_def Let_def vis_if split del: if_split cong: if_cong)

lemma section_F_vis:
  "name m = name m' \<Longrightarrow> visible m = visible m' \<Longrightarrow>
   visible (section_F cfg m) = visible (section_F cfg m')"
  by (simp add: section_F_def Let_def side_enclosure_vis[of m m'] vis_if split del: if_split cong: if_cong)

lemma section_G_vis:
  "name m = name m' \<Longrightarrow> visible m = visible m' \<Longrightarrow>
   visible (section_G cfg m) = visible (section_G cfg m')"
  by (simp add: section_G_def Let_def side_enclosure_vis[of m m'] vis_if split del: if_split cong: if_cong)

lemma section_H_vis:
  assumes "name m = name m'" and "visible m = visible m'"
  shows "visible (section_H cfg m) = visible (section_H cfg m')"
proof -
  have "visible (show_in_target cfg tc (m\<lparr>visible := False\<rparr>))
      = visible (show_in_target cfg tc (m'\<lparr>visible := False\<rparr>))" for tc
    by (rule show_in_target_vis) (simp_all add: assms)
  then show ?thesis
    using assms
    by (simp add: section_H_def Let_def name_functions[OF assms(1)] split: option.splits)
qed

lemma section_I_vis:
  "name m = name m' \<Longrightarrow> visible m = visible m' \<Longrightarrow>
   visible (section_I cfg m) = visible (section_I cfg m')"
  by (simp add: section_I_def Let_def vis_if split del: if_split cong: if_cong)

lemma section_J_vis:
  "name m = name m' \<Longrightarrow> visible m = visible m' \<Longrightarrow>
   visible (section_J cfg m) = visible (section_J cfg m')"
  by (simp add: section_J_def Let_def capture_original_frame vis_if split del: if_split cong: if_cong)

lemma section_K_vis:
  "name m = name m' \<Longrightarrow> visible m = visible m' \<Longrightarrow>
   visible (section_K cfg m) = visible (section_K cfg m')"
  by (simp add: section_K_def Let_def show_light_def vis_if split del: if_split cong: if_cong)

lemma section_L_visible: "visible (section_L cfg m) = visible m"
  by (simp add: section_L_def Let_def)

lemma main_visibility_frame:
  "name (main_visibility cfg n) = name n \<and> isMesh (main_visibility cfg n) = isMesh n"
  by (simp add: main_visibility_def section_A_frame section_B_frame section_C_frame
        section_D_frame section_E_frame section_F_frame section_G_frame section_H_frame
        section_I_frame section_J_frame section_K_frame section_L_frame)

lemma main_visibility_vis:
  assumes "name m = name m'" and "isMesh m = isMesh m'"
    and "\<not> isMesh m \<Longrightarrow> visible m = visible m'"
  shows "visible (main_visibility cfg m) = visible (main_visibility cfg m')"
proof (cases "isMesh m")
  case False
  with assms show ?thesis by (simp add: main_visibility_def)
next
  case True
  let ?s = "\<lambda>x. x\<lparr>castShadow := True, receiveShadow := True\<rparr>"
  let ?c = "\<lambda>x. section_C cfg (section_B cfg (section_A cfg (?s x)))"
  have n: "name (?c m) = name (?c m')"
    using assms(1) by (simp add: section_A_frame section_B_frame section_C_frame)
  have d: "visible (section_D cfg (?c m)) = visible (section_D cfg (?c m'))"
    using n by (rule section_D_vis)
  have dn: "name (section_D cfg (?c m)) = name (section_D cfg (?c m'))"
    using n by (simp add: section_D_frame)
  note step = section_E_vis section_F_vis section_G_vis section_H_vis section_I_vis
    section_J_vis section_K_vis
  note frames = section_E_frame section_F_frame section_G_frame section_H_frame
    section_I_frame section_J_frame section_K_frame
  have e: "visible (section_E cfg (section_D cfg (?c m))) = visible (section_E cfg (section_D cfg (?c m')))"
    using dn d by (rule section_E_vis)
  have f: "visible (section_F cfg (section_E cfg (section_D cfg (?c m))))
         = visible (section_F cfg (section_E cfg (section_D cfg (?c m'))))"
    by (rule section_F_vis) (simp_all add: frames dn e)
  have g: "visible (section_G cfg (section_F cfg (section_E cfg (section_D cfg (?c m)))))
         = visible (section_G cfg (section_F cfg (section_E cfg (section_D cfg (?c m')))))"
    by (rule section_G_vis) (simp_all add: frames dn f)
  have h: "visible (section_H cfg (section_G cfg (section_F cfg (section_E cfg (section_D cfg (?c m))))))
         = visible (section_H cfg (section_G cfg (section_F cfg (section_E cfg (section_D cfg (?c m'))))))"
    by (rule section_H_vis) (simp_all add: frames dn g)
  have i: "visible (section_I cfg (section_H cfg (section_G cfg (section_F cfg (section_E cfg (section_D cfg (?c m)))))))
         = visible (section_I cfg (section_H cfg (section_G cfg (section_F cfg (section_E cfg (section_D cfg (?c m')))))))"
    by (rule section_I_vis) (simp_all add: frames dn h)
  have j: "visible (section_J cfg (section_I cfg (section_H cfg (section_G cfg (section_F cfg (section_E cfg (section_D cfg (?c m))))))))
         = visible (section_J cfg (section_I cfg (section_H cfg (section_G cfg (section_F cfg (section_E cfg (section_D cfg (?c m'))))))))"
    by (rule section_J_vis) (simp_all add: frames dn i)
  have k: "visible (section_K cfg (section_J cfg (section_I cfg (section_H cfg (section_G cfg (section_F cfg (section_E cfg (section_D cfg (?c m)))))))))
         = visible (section_K cfg (section_J cfg (section_I cfg (section_H cfg (section_G cfg (section_F cfg (section_E cfg (section_D cfg (?c m')))))))))"
    by (rule section_K_vis) (simp_all add: frames dn j)
  show ?thesis
    using True assms(2) k by (simp add: main_visibility_def section_L_visible)
qed

lemma outer_steps_frame:
  "name (unbind_material n) = name n \<and> isMesh (unbind_material n) = isMesh n
     \<and> visible (unbind_material n) = visible n"
  "name (counter_scale cfg n) = name n \<and> isMesh (counter_scale cfg n) = isMesh n
     \<and> visible (counter_scale cfg n) = visible n"
  "name (roof_scaling cfg n) = name n \<and> isMesh (roof_scaling cfg n) = isMesh n
     \<and> visible (roof_scaling cfg n) = visible n"
  by (simp_all add: unbind_material_def counter_scale_def roof_scaling_def Let_def
        split: option.splits)

lemma resolve_node_frame:
  "name (resolve_node cfg n) = name n \<and> isMesh (resolve_node cfg n) = isMesh n"
  by (simp add: resolve_node_def outer_steps_frame main_visibility_frame)

lemma resolve_node_untouched:
  "\<not> isMesh n \<Longrightarrow> resolve_node cfg n = n"
  by (simp add: resolve_node_def unbind_material_def main_visibility_def counter_scale_def
        roof_scaling_def)

lemma resolve_node_vis:
  assumes "name m = name m'" and "isMesh m = isMesh m'"
    and "\<not> isMesh m \<Longrightarrow> visible m = visible m'"
  shows "visible (resolve_node cfg m) = visible (resolve_node cfg m')"
proof -
  have "visible (main_visibility cfg (unbind_material m))
      = visible (main_visibility cfg (unbind_material m'))"
    by (rule main_visibility_vis) (simp_all add: outer_steps_frame assms)
  then show ?thesis by (simp add: resolve_node_def outer_steps_frame)
qed

lemma resolve_as_map:
  "resolve cfg scene = map_object3d (resolve_node cfg) (scale_model cfg scene)"
  by (simp add: resolve_def traverse_def object3d.map_comp resolve_node_def[abs_def] comp_def)

lemma scale_model_map:
  assumes "\<And>n a b c. f (n\<lparr>scale_x := a, scale_y := b, scale_z := c\<rparr>) = f n"
  shows "map_object3d f (scale_model cfg scene) = map_object3d f scene"
  using assms by (cases scene) simp

lemma visible_resolve_node_scaled:
  "visible (resolve_node cfg (n\<lparr>scale_x := a, scale_y := b, scale_z := c\<rparr>))
     = visible (resolve_node cfg n)"
  by (rule resolve_node_vis) simp_all

lemma visible_resolve:
  "map_object3d visible (resolve cfg scene)
     = map_object3d (\<lambda>n. visible (resolve_node cfg n)) scene"
  unfolding resolve_as_map object3d.map_comp comp_def
  by (rule scale_model_map) (rule visible_resolve_node_scaled)

lemma visible_resolve_twice_node:
  "visible (resolve_node A (resolve_node B n)) = visible (resolve_node A n)"
proof (rule resolve_node_vis)
  show "name (resolve_node B n) = name n" by (simp add: resolve_node_frame)
  show "isMesh (resolve_node B n) = isMesh n" by (simp add: resolve_node_frame)
  show "visible (resolve_node B n) = visible n" if "\<not> isMesh (resolve_node B n)"
    using that by (simp add: resolve_node_frame resolve_node_untouched)
qed

lemma to_lower_digit:
  "to_lower c = CHR ''0'' \<longleftrightarrow> c = CHR ''0''"
  "to_lower c = CHR ''1'' \<longleftrightarrow> c = CHR ''1''"
  "to_lower c = CHR ''2'' \<longleftrightarrow> c = CHR ''2''"
  by (auto simp: to_lower_def split: if_splits)

lemma map_to_lower_digits:
  "map to_lower xs = ''100'' \<longleftrightarrow> xs = ''100''"
  "map to_lower xs = ''200'' \<longleftrightarrow> xs = ''200''"
  by (auto simp: map_eq_Cons_conv to_lower_digit)

lemma endsWith_lower:
  "endsWith (toLowerCase s) ''001'' = endsWith s ''001''"
  "endsWith (toLowerCase s) ''002'' = endsWith s ''002''"
proof -
  have r: "rev (map to_lower s) = map to_lower (rev s)" by (simp add: rev_map)
  show "endsWith (toLowerCase s) ''001'' = endsWith s ''001''"
    unfolding endsWith_def toLowerCase_def r take_map by (simp add: map_to_lower_digits)
  show "endsWith (toLowerCase s) ''002'' = endsWith s ''002''"
    unfolding endsWith_def toLowerCase_def r take_map by (simp add: map_to_lower_digits)
qed

lemma side_of_lname:
  "isLeftObject n = endsWith (toLowerCase (name n)) ''001''"
  "isRightObject n = endsWith (toLowerCase (name n)) ''002''"
  by (simp_all add: isLeftObject_def isRightObject_def endsWith_lower)

lemmas list_defs = visibleAtStart_def allGlassObjects_def excludedFromFrameColor_def normalLights_def
      glassConfigs_def family_parts_def glass_double_def glass_triple_def glass_fourfold_def glass_fivefold_def glass_sixfold_def
      wallMountedHiddenObjects_def freestandingVisibleObjects_def frontPillarNames_def freestandingBackElements_def
      alwaysVisibleStructural_def flatRoofNames_def pitchedRoofNames_def roofGlassObjects_def backElements_def
      depthScalingHolders_def allParts_def

lemmas step_defs = resolve_node_def roof_scaling_def counter_scale_def main_visibility_def unbind_material_def
  section_A_def section_B_def section_C_def section_D_def section_E_def section_F_def section_G_def section_H_def
  section_I_def section_J_def section_K_def section_L_def side_enclosure_def show_in_target_def 
  isFrontObject_def baseName_def isAnyGlassObject_def capture_original_def show_light_def

lemmas eval_simps = toLowerCase_def to_lower_chars some_lower_def endsWith_def slice_off3_def side_of_lname

lemma lower_lists:
  "map toLowerCase visibleAtStart = visibleAtStart"
  "map toLowerCase allGlassObjects = allGlassObjects"
  "map toLowerCase excludedFromFrameColor = excludedFromFrameColor"
  "map toLowerCase normalLights = normalLights"
  by (simp_all add: toLowerCase_def to_lower_chars list_defs)

subsection \<open>Concrete passes\<close>

text \<open>The definitions of the pass, restricted to literal nodes, so that a pass over a concrete
  node is computed step by step.\<close>

lemmas unbind_material_lit =
  unbind_material_def[of "\<lparr>name = f0, isMesh = f1, visible = f2, material = f3, scale_x = f4,
     scale_y = f5, scale_z = f6, rotation_x = f7, position_y = f8, position_z = f9,
     originalY = f10, originalZ = f11, castShadow = f12, receiveShadow = f13\<rparr>"]
  for f0 f1 f2 f3 f4 f5 f6 f7 f8 f9 f10 f11 f12 f13

lemmas capture_original_lit =
  capture_original_def[of "\<lparr>name = f0, isMesh = f1, visible = f2, material = f3, scale_x = f4,
     scale_y = f5, scale_z = f6, rotation_x = f7, position_y = f8, position_z = f9,
     originalY = f10, originalZ = f11, castShadow = f12, receiveShadow = f13\<rparr>"]
  for f0 f1 f2 f3 f4 f5 f6 f7 f8 f9 f10 f11 f12 f13

lemmas isLeftObject_lit =
  isLeftObject_def[of "\<lparr>name = f0, isMesh = f1, visible = f2, material = f3, scale_x = f4,
     scale_y = f5, scale_z = f6, rotation_x = f7, position_y = f8, position_z = f9,
     originalY = f10, originalZ = f11, castShadow = f12, receiveShadow = f13\<rparr>"]
  for f0 f1 f2 f3 f4 f5 f6 f7 f8 f9 f10 f11 f12 f13

lemmas isRightObject_lit =
  isRightObject_def[of "\<lparr>name = f0, isMesh = f1, visible = f2, material = f3, scale_x = f4,
     scale_y = f5, scale_z = f6, rotation_x = f7, position_y = f8, position_z = f9,
     originalY = f10, originalZ = f11, castShadow = f12, receiveShadow = f13\<rparr>"]
  for f0 f1 f2 f3 f4 f5 f6 f7 f8 f9 f10 f11 f12 f13

lemmas isFrontObject_lit =
  isFrontObject_def[of "\<lparr>name = f0, isMesh = f1, visible = f2, material = f3, scale_x = f4,
     scale_y = f5, scale_z = f6, rotation_x = f7, position_y = f8, position_z = f9,
     originalY = f10, originalZ = f11, castShadow = f12, receiveShadow = f13\<rparr>"]
  for f0 f1 f2 f3 f4 f5 f6 f7 f8 f9 f10 f11 f12 f13

lemmas baseName_lit =
  baseName_def[of "\<lparr>name = f0, isMesh = f1, visible = f2, material = f3, scale_x = f4,
     scale_y = f5, scale_z = f6, rotation_x = f7, position_y = f8, position_z = f9,
     originalY = f10, originalZ = f11, castShadow = f12, receiveShadow = f13\<rparr>"]
  for f0 f1 f2 f3 f4 f5 f6 f7 f8 f9 f10 f11 f12 f13

lemmas isAnyGlassObject_lit =
  isAnyGlassObject_def[of "\<lparr>name = f0, isMesh = f1, visible = f2, material = f3, scale_x = f4,
     scale_y = f5, scale_z = f6, rotation_x = f7, position_y = f8, position_z = f9,
     originalY = f10, originalZ = f11, castShadow = f12, receiveShadow = f13\<rparr>"]
  for f0 f1 f2 f3 f4 f5 f6 f7 f8 f9 f10 f11 f12 f13

lemmas section_A_lit =
  section_A_def[of _ "\<lparr>name = f0, isMesh = f1, visible = f2, material = f3, scale_x = f4,
     scale_y = f5, scale_z = f6, rotation_x = f7, position_y = f8, position_z = f9,
     originalY = f10, originalZ = f11, castShadow = f12, receiveShadow = f13\<rparr>"]
  for f0 f1 f2 f3 f4 f5 f6 f7 f8 f9 f10 f11 f12 f13

lemmas section_B_lit =
  section_B_def[of _ "\<lparr>name = f0, isMesh = f1, visible = f2, material = f3, scale_x = f4,
     scale_y = f5, scale_z = f6, rotation_x = f7, position_y = f8, position_z = f9,
     originalY = f10, originalZ = f11, castShadow = f12, receiveShadow = f13\<rparr>"]
  for f0 f1 f2 f3 f4 f5 f6 f7 f8 f9 f10 f11 f12 f13

lemmas section_C_lit =
  section_C_def[of _ "\<lparr>name = f0, isMesh = f1, visible = f2, material = f3, scale_x = f4,
     scale_y = f5, scale_z = f6, rotation_x = f7, position_y = f8, position_z = f9,
     originalY = f10, originalZ = f11, castShadow = f12, receiveShadow = f13\<rparr>"]
  for f0 f1 f2 f3 f4 f5 f6 f7 f8 f9 f10 f11 f12 f13

lemmas section_D_lit =
  section_D_def[of _ "\<lparr>name = f0, isMesh = f1, visible = f2, material = f3, scale_x = f4,
     scale_y = f5, scale_z = f6, rotation_x = f7, position_y = f8, position_z = f9,
     originalY = f10, originalZ = f11, castShadow = f12, receiveShadow = f13\<rparr>"]
  for f0 f1 f2 f3 f4 f5 f6 f7 f8 f9 f10 f11 f12 f13

lemmas section_E_lit =
  section_E_def[of _ "\<lparr>name = f0, isMesh = f1, visible = f2, material = f3, scale_x = f4,
     scale_y = f5, scale_z = f6, rotation_x = f7, position_y = f8, position_z = f9,
     originalY = f10, originalZ = f11, castShadow = f12, receiveShadow = f13\<rparr>"]
  for f0 f1 f2 f3 f4 f5 f6 f7 f8 f9 f10 f11 f12 f13

lemmas section_F_lit =
  section_F_def[of _ "\<lparr>name = f0, isMesh = f1, visible = f2, material = f3, scale_x = f4,
     scale_y = f5, scale_z = f6, rotation_x = f7, position_y = f8, position_z = f9,
     originalY = f10, originalZ = f11, castShadow = f12, receiveShadow = f13\<rparr>"]
  for f0 f1 f2 f3 f4 f5 f6 f7 f8 f9 f10 f11 f12 f13

lemmas section_G_lit =
  section_G_def[of _ "\<lparr>name = f0, isMesh = f1, visible = f2, material = f3, scale_x = f4,
     scale_y = f5, scale_z = f6, rotation_x = f7, position_y = f8, position_z = f9,
     originalY = f10, originalZ = f11, castShadow = f12, receiveShadow = f13\<rparr>"]
  for f0 f1 f2 f3 f4 f5 f6 f7 f8 f9 f10 f11 f12 f13

lemmas section_H_lit =
  section_H_def[of _ "\<lparr>name = f0, isMesh = f1, visible = f2, material = f3, scale_x = f4,
     scale_y = f5, scale_z = f6, rotation_x = f7, position_y = f8, position_z = f9,
     originalY = f10, originalZ = f11, castShadow = f12, receiveShadow = f13\<rparr>"]
  for f0 f1 f2 f3 f4 f5 f6 f7 f8 f9 f10 f11 f12 f13

lemmas section_I_lit =
  section_I_def[of _ "\<lparr>name = f0, isMesh = f1, visible = f2, material = f3, scale_x = f4,
     scale_y = f5, scale_z = f6, rotation_x = f7, position_y = f8, position_z = f9,
     originalY = f10, originalZ = f11, castShadow = f12, receiveShadow = f13\<rparr>"]
  for f0 f1 f2 f3 f4 f5 f6 f7 f8 f9 f10 f11 f12 f13

lemmas section_J_lit =
  section_J_def[of _ "\<lparr>name = f0, isMesh = f1, visible = f2, material = f3, scale_x = f4,
     scale_y = f5, scale_z = f6, rotation_x = f7, position_y = f8, position_z = f9,
     originalY = f10, originalZ = f11, castShadow = f12, receiveShadow = f13\<rparr>"]
  for f0 f1 f2 f3 f4 f5 f6 f7 f8 f9 f10 f11 f12 f13

lemmas section_K_lit =
  section_K_def[of _ "\<lparr>name = f0, isMesh = f1, visible = f2, material = f3, scale_x = f4,
     scale_y = f5, scale_z = f6, rotation_x = f7, position_y = f8, position_z = f9,
     originalY = f10, originalZ = f11, castShadow = f12, receiveShadow = f13\<rparr>"]
  for f0 f1 f2 f3 f4 f5 f6 f7 f8 f9 f10 f11 f12 f13

lemmas section_L_lit =
  section_L_def[of _ "\<lparr>name = f0, isMesh = f1, visible = f2, material = f3, scale_x = f4,
     scale_y = f5, scale_z = f6, rotation_x = f7, position_y = f8, position_z = f9,
     originalY = f10, originalZ = f11, castShadow = f12, receiveShadow = f13\<rparr>"]
  for f0 f1 f2 f3 f4 f5 f6 f7 f8 f9 f10 f11 f12 f13

lemmas main_visibility_lit =
  main_visibility_def[of _ "\<lparr>name = f0, isMesh = f1, visible = f2, material = f3, scale_x = f4,
     scale_y = f5, scale_z = f6, rotation_x = f7, position_y = f8, position_z = f9,
     originalY = f10, originalZ = f11, castShadow = f12, receiveShadow = f13\<rparr>"]
  for f0 f1 f2 f3 f4 f5 f6 f7 f8 f9 f10 f11 f12 f13

lemmas counter_scale_lit =
  counter_scale_def[of _ "\<lparr>name = f0, isMesh = f1, visible = f2, material = f3, scale_x = f4,
     scale_y = f5, scale_z = f6, rotation_x = f7, position_y = f8, position_z = f9,
     originalY = f10, originalZ = f11, castShadow = f12, receiveShadow = f13\<rparr>"]
  for f0 f1 f2 f3 f4 f5 f6 f7 f8 f9 f10 f11 f12 f13

lemmas roof_scaling_lit =
  roof_scaling_def[of _ "\<lparr>name = f0, isMesh = f1, visible = f2, material = f3, scale_x = f4,
     scale_y = f5, scale_z = f6, rotation_x = f7, position_y = f8, position_z = f9,
     originalY = f10, originalZ = f11, castShadow = f12, receiveShadow = f13\<rparr>"]
  for f0 f1 f2 f3 f4 f5 f6 f7 f8 f9 f10 f11 f12 f13

lemmas show_light_lit =
  show_light_def[of _ "\<lparr>name = f0, isMesh = f1, visible = f2, material = f3, scale_x = f4,
     scale_y = f5, scale_z = f6, rotation_x = f7, position_y = f8, position_z = f9,
     originalY = f10, originalZ = f11, castShadow = f12, receiveShadow = f13\<rparr>"]
  for f0 f1 f2 f3 f4 f5 f6 f7 f8 f9 f10 f11 f12 f13

lemmas targetEntry_lit =
  targetEntry_def[of _ "\<lparr>name = f0, isMesh = f1, visible = f2, material = f3, scale_x = f4,
     scale_y = f5, scale_z = f6, rotation_x = f7, position_y = f8, position_z = f9,
     originalY = f10, originalZ = f11, castShadow = f12, receiveShadow = f13\<rparr>"]
  for f0 f1 f2 f3 f4 f5 f6 f7 f8 f9 f10 f11 f12 f13

lemmas show_in_target_lit =
  show_in_target_def[of _ _ "\<lparr>name = f0, isMesh = f1, visible = f2, material = f3, scale_x = f4,
     scale_y = f5, scale_z = f6, rotation_x = f7, position_y = f8, position_z = f9,
     originalY = f10, originalZ = f11, castShadow = f12, receiveShadow = f13\<rparr>"]
  for f0 f1 f2 f3 f4 f5 f6 f7 f8 f9 f10 f11 f12 f13

lemmas side_enclosure_lit =
  side_enclosure_def[of _ _ _ _ "\<lparr>name = f0, isMesh = f1, visible = f2, material = f3, scale_x = f4,
     scale_y = f5, scale_z = f6, rotation_x = f7, position_y = f8, position_z = f9,
     originalY = f10, originalZ = f11, castShadow = f12, receiveShadow = f13\<rparr>"]
  for f0 f1 f2 f3 f4 f5 f6 f7 f8 f9 f10 f11 f12 f13

lemmas lit_rules = unbind_material_lit capture_original_lit isLeftObject_lit isRightObject_lit
  isFrontObject_lit baseName_lit isAnyGlassObject_lit section_A_lit section_B_lit section_C_lit
  section_D_lit section_E_lit section_F_lit section_G_lit section_H_lit section_I_lit
  section_J_lit section_K_lit section_L_lit main_visibility_lit counter_scale_lit
  roof_scaling_lit show_light_lit targetEntry_lit show_in_target_lit side_enclosure_lit

lemma initial_state_values:
  "roofPitchActive initial_state = True" "roofPitchAngle initial_state = 0"
  "roofAwningPosition initial_state = ''none''" "metalMaterial initial_state = ''anthracite''"
  "enclosureEnabled initial_state = True" "lightsOn initial_state = False"
  "lightShape initial_state = ''circle''" "timeOfDay initial_state = ''day''"
  "lightColor initial_state = ''#ffd700''" "glassType initial_state = ''triple''"
  "glassStyle initial_state = ''withframe''" "width initial_state = 5"
  "depth initial_state = 4.5" "height initial_state = 3"
  "verandaType initial_state = ''wall-mounted''" "tintedGlassEnabled initial_state = False"
  "glassColor initial_state = ''clear''"
  "front_side (sideEnclosureTypes initial_state) = EntryObj (Some ''glass'') (Some ''triple'')"
  "left_side (sideEnclosureTypes initial_state) = EntryObj (Some ''glass'') (Some ''triple'')"
  "right_side (sideEnclosureTypes initial_state) = EntryObj (Some ''glass'') (Some ''triple'')"
  by (simp_all add: initial_state_def)

lemmas eval_rules = lit_rules resolve_node_def list_defs Let_def toLowerCase_def to_lower_chars
  some_lower_def endsWith_def slice_off3_def sideGlassType_def sideMaterial_def
  getGlassMaterial_def GLASS_TINT_COLORS_def tint_clear_def frameMaterial_def getFrameColor_def
  lightMaterial_def stored_def angleRad_def currentGlassConfig_def currentRoofScaleX_def
  roofXScales_def depthScale_def initialBlackMaterial_def

lemma flat_pass_on_fresh_glass:
  "resolve_node flat_state (mesh ''roofpitchglass'') =
     \<lparr>name = ''roofpitchglass'', isMesh = True, visible = False,
      material = Some (GlassMaterial ''#ffffff'' (19 / 20) (3 / 10)),
      scale_x = 1, scale_y = 1, scale_z = 1, rotation_x = 0, position_y = 2, position_z = 0,
      originalY = None, originalZ = None, castShadow = True, receiveShadow = True\<rparr>"
  by (simp add: eval_rules flat_state_def initial_state_values mesh_def cong: let_weak_cong)

lemma pitched_pass_on_glass:
  "resolve_node pitched_state
     \<lparr>name = ''roofpitchglass'', isMesh = True, visible = False,
      material = Some (GlassMaterial ''#ffffff'' (19 / 20) (3 / 10)),
      scale_x = 1, scale_y = 1, scale_z = 1, rotation_x = 0, position_y = 2, position_z = 0,
      originalY = None, originalZ = None, castShadow = True, receiveShadow = True\<rparr> =
     \<lparr>name = ''roofpitchglass'', isMesh = True, visible = True,
      material = Some (GlassMaterial ''#ffffff'' (19 / 20) (3 / 10)),
      scale_x = 1, scale_y = 7 / 2, scale_z = 1, rotation_x = 0, position_y = 2, position_z = 0,
      originalY = None, originalZ = None, castShadow = True, receiveShadow = True\<rparr>"
  by (simp add: eval_rules pitched_state_def initial_state_values cong: let_weak_cong)

lemma flat_pass_on_pitched_glass:
  "resolve_node flat_state
     \<lparr>name = ''roofpitchglass'', isMesh = True, visible = True,
      material = Some (GlassMaterial ''#ffffff'' (19 / 20) (3 / 10)),
      scale_x = 1, scale_y = 7 / 2, scale_z = 1, rotation_x = 0, position_y = 2, position_z = 0,
      originalY = None, originalZ = None, castShadow = True, receiveShadow = True\<rparr> =
     \<lparr>name = ''roofpitchglass'', isMesh = True, visible = False,
      material = Some (GlassMaterial ''#ffffff'' (19 / 20) (3 / 10)),
      scale_x = 1, scale_y = 7 / 2, scale_z = 1, rotation_x = 0, position_y = 2, position_z = 0,
      originalY = None, originalZ = None, castShadow = True, receiveShadow = True\<rparr>"
  by (simp add: eval_rules flat_state_def initial_state_values cong: let_weak_cong)

lemma resolve_group:
  "\<not> isMesh g \<Longrightarrow>
   resolve cfg (Object3D g kids) =
     Object3D (g\<lparr>scale_x := widthScale cfg, scale_y := heightScale cfg, scale_z := depthScale cfg\<rparr>)
       (map (map_object3d (resolve_node cfg)) kids)"
  by (simp add: resolve_as_map resolve_node_untouched)

lemma model_group_not_mesh: "\<not> isMesh model_group"
  by (simp add: model_group_def)

lemma example_heights: "heightScale flat_state = 1" "heightScale pitched_state = 1"
  by (simp_all add: heightScale_def flat_state_def pitched_state_def initial_state_values)

subsection \<open>No memory\<close>

text \<open>
  Claim C3 says that resolving \<open>A\<close>, then \<open>B\<close>, then \<open>A\<close> again leaves every node's visibility,
  material, transform and \<^verbatim>\<open>userData\<close> as resolving \<open>A\<close> once on a fresh tree does. The pass
  writes \<^verbatim>\<open>roofpitchglass.scale.y\<close> only while the pitched roof is active (section I), and
  nothing resets it: after flat, pitched at 15 degrees, flat, the hidden pitched glass keeps
  the scale 3.5 of the pitched pass, where one flat pass on the fresh tree leaves the authored
  scale 1.
\<close>

theorem pitch_scale_survives_flat_pass:
  "map_object3d scale_y (resolve flat_state (resolve pitched_state (resolve flat_state roof_scene)))
     = Object3D 1 [Object3D (7 / 2) []]
   \<and> map_object3d scale_y (resolve flat_state roof_scene) = Object3D 1 [Object3D 1 []]"
  by (simp add: roof_scene_def resolve_group model_group_not_mesh example_heights
        flat_pass_on_fresh_glass pitched_pass_on_glass flat_pass_on_pitched_glass)

text \<open>
  Claim C3, for what the pass does forget: the visibility of every node after \<open>A\<close>, \<open>B\<close>,
  \<open>A\<close> is the visibility after \<open>A\<close> alone, for all configurations \<open>A\<close> and \<open>B\<close> and every
  scene tree; and the same after any history of passes. Every pass decides the visibility of
  a mesh from its name and the configuration only.
\<close>

theorem visibility_has_no_memory:
  "map_object3d visible (resolve A (resolve B (resolve A scene)))
     = map_object3d visible (resolve A scene)
   \<and> map_object3d visible (resolve A (foldl (\<lambda>t c. resolve c t) scene history))
     = map_object3d visible (resolve A scene)"
proof -
  have step: "map_object3d visible (resolve A (resolve B t)) = map_object3d visible (resolve A t)"
    for A B t
  proof -
    have "map_object3d visible (resolve A (resolve B t))
        = map_object3d (\<lambda>n. visible (resolve_node A n)) (resolve B t)"
      by (rule visible_resolve)
    also have "\<dots> = map_object3d (\<lambda>n. visible (resolve_node A (resolve_node B n)))
                       (scale_model B t)"
      by (simp add: resolve_as_map object3d.map_comp comp_def)
    also have "\<dots> = map_object3d (\<lambda>n. visible (resolve_node A n)) (scale_model B t)"
      by (simp add: visible_resolve_twice_node)
    also have "\<dots> = map_object3d (\<lambda>n. visible (resolve_node A n)) t"
      by (rule scale_model_map) (rule visible_resolve_node_scaled)
    also have "\<dots> = map_object3d visible (resolve A t)"
      by (rule visible_resolve[symmetric])
    finally show ?thesis .
  qed
  have "map_object3d visible (resolve A (foldl (\<lambda>t c. resolve c t) scene history))
     = map_object3d visible (resolve A scene)"
    by (induction history rule: rev_induct) (simp_all add: step)
  moreover have "map_object3d visible (resolve A (resolve B (resolve A scene)))
     = map_object3d visible (resolve A scene)"
    by (simp only: step)
  ultimately show ?thesis by simp
qed

subsection \<open>Roof regimes\<close>

lemma lower_small_lists:
  "map toLowerCase normalLights = normalLights"
  by (simp add: toLowerCase_def to_lower_chars normalLights_def)

lemma section_K_visible:
  "toLowerCase (name m) \<notin> set normalLights \<Longrightarrow> visible (section_K cfg m) = visible m"
  by (simp add: section_K_def Let_def some_lower_def lower_small_lists show_light_def)
     (simp add: normalLights_def)

lemma section_J_visible:
  "toLowerCase (name m) \<notin> set [''normawn'', ''normawnfabric'', ''roofpitchawn'', ''roofpitchawnfabric'']
   \<Longrightarrow> visible (section_J cfg m) = visible m"
  by (simp add: section_J_def Let_def)


lemma section_I_pitched:
  "toLowerCase (name m) \<in> set pitchedRoofNames
   \<Longrightarrow> visible (section_I cfg m) = roofPitchActive cfg"
  by (auto simp add: section_I_def Let_def flatRoofNames_def normalLights_def pitchedRoofNames_def)

lemma section_I_flat:
  assumes "verandaType cfg = ''wall-mounted'' \<or> verandaType cfg = ''freestanding''"
  shows "toLowerCase (name m) = ''normroofglass'' \<Longrightarrow> visible (section_I cfg m) = (\<not> roofPitchActive cfg)"
    and "toLowerCase (name m) = ''pitchnormroof'' \<Longrightarrow>
           visible (section_I cfg m) = (\<not> roofPitchActive cfg \<and> verandaType cfg = ''wall-mounted'')"
    and "toLowerCase (name m) = ''normroof'' \<Longrightarrow>
           visible (section_I cfg m) = (\<not> roofPitchActive cfg \<and> verandaType cfg = ''freestanding'')"
  using assms
  by (auto simp add: section_I_def Let_def flatRoofNames_def normalLights_def pitchedRoofNames_def)

lemma resolve_node_after_I:
  assumes "isMesh n" 
    and "toLowerCase (name n) \<notin> set normalLights"
    and "toLowerCase (name n) \<notin> set [''normawn'', ''normawnfabric'', ''roofpitchawn'', ''roofpitchawnfabric'']"
  shows "\<exists>m. name m = name n \<and> visible (resolve_node cfg n) = visible (section_I cfg m)"
proof -
  let ?h = "section_H cfg (section_G cfg (section_F cfg (section_E cfg (section_D cfg
             (section_C cfg (section_B cfg (section_A cfg
                 ((unbind_material n)\<lparr>castShadow := True, receiveShadow := True\<rparr>))))))))"
  have nm: "name ?h = name n"
    by (simp add: section_A_frame section_B_frame section_C_frame section_D_frame
          section_E_frame section_F_frame section_G_frame section_H_frame outer_steps_frame)
  have "visible (resolve_node cfg n) = visible (section_K cfg (section_J cfg (section_I cfg ?h)))"
    using assms(1)
    by (simp add: resolve_node_def outer_steps_frame main_visibility_def section_L_visible)
  also have "\<dots> = visible (section_J cfg (section_I cfg ?h))"
    by (rule section_K_visible) (use assms(2) in \<open>simp add: section_J_frame section_I_frame nm\<close>)
  also have "\<dots> = visible (section_I cfg ?h)"
    by (rule section_J_visible) (use assms(3) in \<open>simp add: section_I_frame nm\<close>)
  finally show ?thesis using nm by blast
qed

lemma roof_names_plain:
  assumes "l \<in> set (pitchedRoofNames @ flatRoofNames)"
  shows "l \<notin> set normalLights"
    and "l \<notin> set [''normawn'', ''normawnfabric'', ''roofpitchawn'', ''roofpitchawnfabric'']"
  using assms by (auto simp: pitchedRoofNames_def flatRoofNames_def normalLights_def)

lemma resolve_nodes:
  assumes "n \<in> set_object3d (resolve cfg scene)"
  shows "\<exists>n0. n = resolve_node cfg n0"
  using assms unfolding resolve_as_map by (auto simp: object3d.set_map)

text \<open>
  Claim C2: after the pass exactly one roof regime is visible. For every configuration whose
  \<^verbatim>\<open>verandaType\<close> is one of the two valid values and every mesh of the resolved scene: a
  pitched-roof mesh (\<^verbatim>\<open>roofpitchbase\<close>, \<^verbatim>\<open>roofpitchside\<close>, \<^verbatim>\<open>roofpitchglass\<close>,
  \<^verbatim>\<open>roofpitchshade\<close>) is visible exactly when \<^verbatim>\<open>roofPitchActive\<close> holds;
  \<^verbatim>\<open>normroofglass\<close> is visible exactly when it does not; \<^verbatim>\<open>pitchnormroof\<close> is visible
  exactly in the flat regime of a wall-mounted veranda and \<^verbatim>\<open>normroof\<close> exactly in the flat
  regime of a freestanding one. So with the pitch active all pitched meshes are shown and all
  flat ones hidden, and without it \<^verbatim>\<open>normroofglass\<close> and the roof of the veranda type are
  shown, the other flat roof and all pitched meshes hidden.
\<close>

theorem roof_regimes_exclusive:
  assumes "n \<in> set_object3d (resolve cfg scene)" and "isMesh n"
    and "verandaType cfg = ''wall-mounted'' \<or> verandaType cfg = ''freestanding''"
  shows "(toLowerCase (name n) \<in> set pitchedRoofNames \<longrightarrow> visible n = roofPitchActive cfg)
       \<and> (toLowerCase (name n) = ''normroofglass'' \<longrightarrow> visible n = (\<not> roofPitchActive cfg))
       \<and> (toLowerCase (name n) = ''pitchnormroof'' \<longrightarrow>
            visible n = (\<not> roofPitchActive cfg \<and> verandaType cfg = ''wall-mounted''))
       \<and> (toLowerCase (name n) = ''normroof'' \<longrightarrow>
            visible n = (\<not> roofPitchActive cfg \<and> verandaType cfg = ''freestanding''))"
proof -
  obtain n0 where n: "n = resolve_node cfg n0" using resolve_nodes[OF assms(1)] by blast
  have nm: "name n = name n0" and mesh: "isMesh n0"
    using assms(2) by (simp_all add: n resolve_node_frame)
  have key: "\<exists>m. name m = name n \<and> visible n = visible (section_I cfg m)"
    if "toLowerCase (name n) \<in> set (pitchedRoofNames @ flatRoofNames)"
    using resolve_node_after_I[OF mesh, of cfg] roof_names_plain[OF that] by (simp add: n nm[unfolded n])
  have a: "visible n = roofPitchActive cfg" if "toLowerCase (name n) \<in> set pitchedRoofNames"
  proof -
    from that key obtain m where "name m = name n" "visible n = visible (section_I cfg m)" by auto
    with that section_I_pitched[of m cfg] show ?thesis by simp
  qed
  have b: "visible n = (\<not> roofPitchActive cfg)" if "toLowerCase (name n) = ''normroofglass''"
  proof -
    from that key obtain m where "name m = name n" "visible n = visible (section_I cfg m)"
      by (auto simp: flatRoofNames_def)
    with that section_I_flat(1)[OF assms(3), of m] show ?thesis by simp
  qed
  have c: "visible n = (\<not> roofPitchActive cfg \<and> verandaType cfg = ''wall-mounted'')"
    if "toLowerCase (name n) = ''pitchnormroof''"
  proof -
    from that key obtain m where "name m = name n" "visible n = visible (section_I cfg m)"
      by (auto simp: flatRoofNames_def)
    with that section_I_flat(2)[OF assms(3), of m] show ?thesis by simp
  qed
  have d: "visible n = (\<not> roofPitchActive cfg \<and> verandaType cfg = ''freestanding'')"
    if "toLowerCase (name n) = ''normroof''"
  proof -
    from that key obtain m where "name m = name n" "visible n = visible (section_I cfg m)"
      by (auto simp: flatRoofNames_def)
    with that section_I_flat(3)[OF assms(3), of m] show ?thesis by simp
  qed
  from a b c d show ?thesis by blast
qed
theorem roof_regimes_exclusive_witness:
  "resolve_node initial_state (mesh ''roofpitchglass'') \<in> set_object3d (resolve initial_state roof_scene)
   \<and> isMesh (resolve_node initial_state (mesh ''roofpitchglass''))
   \<and> verandaType initial_state = ''wall-mounted''
   \<and> toLowerCase (name (resolve_node initial_state (mesh ''roofpitchglass''))) \<in> set pitchedRoofNames
   \<and> roofPitchActive initial_state
   \<and> visible (resolve_node initial_state (mesh ''roofpitchglass''))"
proof -
  let ?n = "resolve_node initial_state (mesh ''roofpitchglass'')"
  have m: "?n \<in> set_object3d (resolve initial_state roof_scene)"
    by (simp add: roof_scene_def resolve_group model_group_not_mesh)
  have i: "isMesh ?n" by (simp add: resolve_node_frame mesh_def)
  have v: "verandaType initial_state = ''wall-mounted''" by (simp add: initial_state_values)
  have nm: "toLowerCase (name ?n) \<in> set pitchedRoofNames"
    by (simp add: resolve_node_frame mesh_def toLowerCase_def to_lower_chars pitchedRoofNames_def)
  have p: "roofPitchActive initial_state" by (simp add: initial_state_values)
  from roof_regimes_exclusive[OF m i disjI1[OF v]] nm p have "visible ?n" by blast
  with m i v nm p show ?thesis by blast
qed

subsection \<open>Glass families\<close>







lemma baseName_hidden [simp]: "baseName (m\<lparr>visible := v\<rparr>) = baseName m"
  by (simp add: baseName_def isLeftObject_def isRightObject_def)



lemma section_H_enabled_other:
  "enclosureEnabled cfg \<Longrightarrow> \<not> isAnyGlassObject m \<Longrightarrow> section_H cfg m = m"
  by (simp add: section_H_def)













lemma allGlassObjects_list: "allGlassObjects = concat (map family_parts [glass_triple, glass_fourfold, glass_fivefold, glass_sixfold])"
  by (simp add: allGlassObjects_def glassConfigs_def)











subsection \<open>Unknown keys\<close>











section \<open>Camera controller: the refs stay in range\<close>

























section \<open>Rule-based interpreter: the example of the specification\<close>

lemma six_glass_lower:
  "toLowerCase ''I want a six glass veranda'' = ''i want a six glass veranda''"
  by (simp add: toLowerCase_def to_lower_def)

lemma word_chars:
  "word_char CHR ''i''" "word_char CHR ''w''" "word_char CHR ''a''" "word_char CHR ''n''"
  "word_char CHR ''t''" "word_char CHR ''s''" "word_char CHR ''x''" "word_char CHR ''g''"
  "word_char CHR ''l''" "word_char CHR ''v''" "word_char CHR ''e''" "word_char CHR ''r''"
  "word_char CHR ''d''"
  "\<not> word_char CHR '' ''"
  by (simp_all add: word_char_def)

lemma no_line_terminators:
  "\<not> line_terminator CHR ''i''" "\<not> line_terminator CHR ''w''" "\<not> line_terminator CHR ''a''" "\<not> line_terminator CHR ''n''"
  "\<not> line_terminator CHR ''t''" "\<not> line_terminator CHR ''s''" "\<not> line_terminator CHR ''x''" "\<not> line_terminator CHR ''g''"
  "\<not> line_terminator CHR ''l''" "\<not> line_terminator CHR ''v''" "\<not> line_terminator CHR ''e''" "\<not> line_terminator CHR ''r''"
  "\<not> line_terminator CHR ''d''"
  "\<not> line_terminator CHR '' ''"
  by (simp_all add: line_terminator_def)

lemma six_glass_detected:
  "test (count_then_part [''six'', ''6'']) ''i want a six glass veranda''"
  by (simp add: test_def count_then_part_def word_chars no_line_terminators)

lemma six_glass_not_open:
  "\<not> test (whole [[Lit ''open''], [Lit ''airy''], [Lit ''no'', OptAny, Lit ''walls''],
                   [Lit ''no'', OptAny, Lit ''enclosure'']]) ''i want a six glass veranda''"
  by (simp add: test_def whole_def word_chars no_line_terminators)

lemma six_glass_enclosed:
  "test (words [''glass'', ''window'', ''transparent'', ''enclosed'']) ''i want a six glass veranda''"
  by (simp add: test_def words_def whole_def word_chars no_line_terminators)

text \<open>
  Claim C7: on \<^verbatim>\<open>"I want a six glass veranda"\<close> with an empty history the interpreter builds
  the configuration that the claim describes, glass type sixfold, enclosure enabled, side
  front, in its local variable, and returns \<^verbatim>\<open>undefined\<close>, since the function has no
  \<^verbatim>\<open>return\<close>.
\<close>

theorem six_glass_configuration_is_not_returned:
  "interpretUserInput ''I want a six glass veranda'' [] = None
   \<and> ai_glassType (final_config ''I want a six glass veranda'') = ''sixfold''
   \<and> ai_enclosureEnabled (final_config ''I want a six glass veranda'')
   \<and> ai_selectedSide (final_config ''I want a six glass veranda'') = Some ''front''"
  by (simp add: interpretUserInput_def final_config_def six_glass_lower step2_def step7_def
        step8_def detected_def default_config_def six_glass_detected six_glass_not_open
        six_glass_enclosed)

end
